theory Spec2Isabelle
  imports Main
begin

section \<open>Python values and the operations the scripts apply to them\<close>

text \<open>
  Both scripts handle loosely typed data: the rows and objects the remote backend returns
  (JSON) and the dictionaries the scripts build themselves. A value is \<open>None\<close>, a bool,
  an int, a str, a list or a dict; a dict is an association list in insertion order, its
  keys being values themselves (the health checker uses a column value as a key).
  Strings are byte strings (UTF-8), floats are not modelled.
\<close>

datatype pyval =
    PNone
  | PBool bool
  | PInt int
  | PStr string
  | PList "pyval list"
  | PDict "(pyval \<times> pyval) list"

text \<open>
  The exceptions that \<open>except Exception\<close> catches: an error raised by the remote
  client (its message is whatever the backend reports) and the three interpreter errors
  that operations on ill-shaped data raise.
\<close>

datatype exn =
    RemoteError string
  | KeyError pyval
  | TypeError string
  | AttributeError string

subsection \<open>Rendering: \<open>str\<close> and \<open>repr\<close>\<close>

definition digit_char :: "nat \<Rightarrow> char" where
  "digit_char d = ''0123456789'' ! d"

fun show_nat :: "nat \<Rightarrow> string" where
  "show_nat n = (if n < 10 then [digit_char n] else show_nat (n div 10) @ [digit_char (n mod 10)])"

declare show_nat.simps [simp del]

definition show_int :: "int \<Rightarrow> string" where
  "show_int i = (if i < 0 then CHR ''-'' # show_nat (nat (- i)) else show_nat (nat i))"

definition squote :: char where "squote = CHR 0x27"
definition dquote :: char where "dquote = CHR 0x22"
definition backslash :: char where "backslash = CHR 0x5C"

definition hex_char :: "nat \<Rightarrow> char" where
  "hex_char d = ''0123456789abcdef'' ! d"

text \<open>
  \<open>repr\<close> of a str: double quotes when the text has a single quote and no double
  quote, single quotes otherwise; backslash, the chosen quote and control characters are
  escaped. Bytes from 0x80 on (UTF-8 sequences) are printed as they are.
\<close>

definition repr_char :: "char \<Rightarrow> char \<Rightarrow> string" where
  "repr_char q c =
     (if c = backslash then [backslash, backslash]
      else if c = q then [backslash, q]
      else if c = CHR 0x0A then [backslash, CHR ''n'']
      else if c = CHR 0x0D then [backslash, CHR ''r'']
      else if c = CHR 0x09 then [backslash, CHR ''t'']
      else if of_char c < (32 :: nat) \<or> of_char c = (127 :: nat)
        then [backslash, CHR ''x'', hex_char (of_char c div 16), hex_char (of_char c mod 16)]
      else [c])"

definition repr_str :: "string \<Rightarrow> string" where
  "repr_str s =
     (let q = (if squote \<in> set s \<and> dquote \<notin> set s then dquote else squote)
      in q # concat (map (repr_char q) s) @ [q])"

fun join :: "string \<Rightarrow> string list \<Rightarrow> string" where
  "join sep [] = []"
| "join sep [x] = x"
| "join sep (x # y # ys) = x @ sep @ join sep (y # ys)"

primrec py_repr :: "pyval \<Rightarrow> string" where
  "py_repr PNone = ''None''"
| "py_repr (PBool b) = (if b then ''True'' else ''False'')"
| "py_repr (PInt i) = show_int i"
| "py_repr (PStr s) = repr_str s"
| "py_repr (PList xs) = ''['' @ join '', '' (map py_repr xs) @ '']''"
| "py_repr (PDict kvs) =
     ''{'' @ join '', '' (map (\<lambda>kv. fst kv @ '': '' @ snd kv) (map (map_prod py_repr py_repr) kvs)) @ ''}''"

definition py_str :: "pyval \<Rightarrow> string" where
  "py_str v = (case v of PStr s \<Rightarrow> s | _ \<Rightarrow> py_repr v)"

definition str_exn :: "exn \<Rightarrow> string" where
  "str_exn e =
     (case e of
        RemoteError m \<Rightarrow> m
      | KeyError k \<Rightarrow> py_repr k
      | TypeError m \<Rightarrow> m
      | AttributeError m \<Rightarrow> m)"

subsection \<open>Truth value, length, iteration, dictionaries\<close>

definition type_name :: "pyval \<Rightarrow> string" where
  "type_name v =
     (case v of
        PNone \<Rightarrow> ''NoneType'' | PBool _ \<Rightarrow> ''bool'' | PInt _ \<Rightarrow> ''int''
      | PStr _ \<Rightarrow> ''str'' | PList _ \<Rightarrow> ''list'' | PDict _ \<Rightarrow> ''dict'')"

definition quoted :: "string \<Rightarrow> string" where
  "quoted s = squote # s @ [squote]"

definition truthy :: "pyval \<Rightarrow> bool" where
  "truthy v =
     (case v of
        PNone \<Rightarrow> False | PBool b \<Rightarrow> b | PInt i \<Rightarrow> i \<noteq> 0
      | PStr s \<Rightarrow> s \<noteq> [] | PList xs \<Rightarrow> xs \<noteq> [] | PDict kvs \<Rightarrow> kvs \<noteq> [])"

definition py_len :: "pyval \<Rightarrow> exn + nat" where
  "py_len v =
     (case v of
        PStr s \<Rightarrow> Inr (length s)
      | PList xs \<Rightarrow> Inr (length xs)
      | PDict kvs \<Rightarrow> Inr (length kvs)
      | _ \<Rightarrow> Inl (TypeError (''object of type '' @ quoted (type_name v) @ '' has no len()'')))"

definition py_iter :: "pyval \<Rightarrow> exn + pyval list" where
  "py_iter v =
     (case v of
        PStr s \<Rightarrow> Inr (map (\<lambda>c. PStr [c]) s)
      | PList xs \<Rightarrow> Inr xs
      | PDict kvs \<Rightarrow> Inr (map fst kvs)
      | _ \<Rightarrow> Inl (TypeError (quoted (type_name v) @ '' object is not iterable'')))"

text \<open>Keys: \<open>True == 1\<close> and \<open>False == 0\<close> in Python, lists and dicts are unhashable.\<close>

definition num_of :: "pyval \<Rightarrow> int option" where
  "num_of v = (case v of PBool b \<Rightarrow> Some (if b then 1 else 0) | PInt i \<Rightarrow> Some i | _ \<Rightarrow> None)"

definition key_eq :: "pyval \<Rightarrow> pyval \<Rightarrow> bool" where
  "key_eq a b =
     (case (num_of a, num_of b) of
        (Some x, Some y) \<Rightarrow> x = y
      | (None, None) \<Rightarrow> a = b
      | _ \<Rightarrow> False)"

definition hashable :: "pyval \<Rightarrow> bool" where
  "hashable v = (case v of PList _ \<Rightarrow> False | PDict _ \<Rightarrow> False | _ \<Rightarrow> True)"

fun dict_lookup :: "(pyval \<times> pyval) list \<Rightarrow> pyval \<Rightarrow> pyval option" where
  "dict_lookup [] k = None"
| "dict_lookup ((k', v) # kvs) k = (if key_eq k' k then Some v else dict_lookup kvs k)"

fun dict_set :: "(pyval \<times> pyval) list \<Rightarrow> pyval \<Rightarrow> pyval \<Rightarrow> (pyval \<times> pyval) list" where
  "dict_set [] k v = [(k, v)]"
| "dict_set ((k', v') # kvs) k v =
     (if key_eq k' k then (k', v) # kvs else (k', v') # dict_set kvs k v)"

text \<open>\<open>d.get(k, default)\<close>: an \<open>AttributeError\<close> when \<open>d\<close> is no dict.\<close>

definition dict_get :: "pyval \<Rightarrow> pyval \<Rightarrow> pyval \<Rightarrow> exn + pyval" where
  "dict_get d k dflt =
     (case d of
        PDict kvs \<Rightarrow>
          if hashable k then Inr (case dict_lookup kvs k of Some v \<Rightarrow> v | None \<Rightarrow> dflt)
          else Inl (TypeError (''unhashable type: '' @ quoted (type_name k)))
      | _ \<Rightarrow> Inl (AttributeError
                (quoted (type_name d) @ '' object has no attribute '' @ quoted ''get'')))"

text \<open>\<open>v[key]\<close> with a string key: a \<open>KeyError\<close> on a dict without the key.\<close>

definition subscript :: "pyval \<Rightarrow> string \<Rightarrow> exn + pyval" where
  "subscript v key =
     (case v of
        PDict kvs \<Rightarrow>
          (case dict_lookup kvs (PStr key) of Some x \<Rightarrow> Inr x | None \<Rightarrow> Inl (KeyError (PStr key)))
      | PList _ \<Rightarrow> Inl (TypeError ''list indices must be integers or slices, not str'')
      | PStr _ \<Rightarrow> Inl (TypeError (''string indices must be integers, not '' @ quoted ''str''))
      | _ \<Rightarrow> Inl (TypeError (quoted (type_name v) @ '' object is not subscriptable'')))"

text \<open>\<open>v > n\<close> for an int literal \<open>n\<close>.\<close>

definition py_gt :: "pyval \<Rightarrow> int \<Rightarrow> exn + bool" where
  "py_gt v n =
     (case num_of v of
        Some i \<Rightarrow> Inr (i > n)
      | None \<Rightarrow> Inl (TypeError (quoted ''>'' @ '' not supported between instances of ''
                  @ quoted (type_name v) @ '' and '' @ quoted ''int'')))"

subsection \<open>Dates and times\<close>

text \<open>
  A reading of \<open>datetime.utcnow()\<close>, with the three operations the scripts use:
  \<open>isoformat()\<close>, \<open>strftime('%Y-%m')\<close> and the subtraction of whole days or of
  one hour (years 1000 to 9999, where \<open>%Y\<close> has four digits).
\<close>

record datetime =
  year :: nat
  month :: nat
  day :: nat
  hour :: nat
  minute :: nat
  second :: nat
  microsecond :: nat

definition zpad :: "nat \<Rightarrow> nat \<Rightarrow> string" where
  "zpad w n = replicate (w - length (show_nat n)) CHR ''0'' @ show_nat n"

definition isoformat :: "datetime \<Rightarrow> string" where
  "isoformat t =
     zpad 4 (year t) @ ''-'' @ zpad 2 (month t) @ ''-'' @ zpad 2 (day t) @ ''T''
     @ zpad 2 (hour t) @ '':'' @ zpad 2 (minute t) @ '':'' @ zpad 2 (second t)
     @ (if microsecond t = 0 then [] else ''.'' @ zpad 6 (microsecond t))"

definition strftime_Ym :: "datetime \<Rightarrow> string" where
  "strftime_Ym t = zpad 4 (year t) @ ''-'' @ zpad 2 (month t)"

definition is_leap :: "nat \<Rightarrow> bool" where
  "is_leap y = (y mod 4 = 0 \<and> (y mod 100 \<noteq> 0 \<or> y mod 400 = 0))"

definition days_in_month :: "nat \<Rightarrow> nat \<Rightarrow> nat" where
  "days_in_month y m =
     (if m = 2 then (if is_leap y then 29 else 28)
      else if m = 4 \<or> m = 6 \<or> m = 9 \<or> m = 11 then 30 else 31)"

definition prev_day :: "datetime \<Rightarrow> datetime" where
  "prev_day t =
     (if day t > 1 then t\<lparr>day := day t - 1\<rparr>
      else if month t > 1
        then t\<lparr>month := month t - 1, day := days_in_month (year t) (month t - 1)\<rparr>
      else t\<lparr>year := year t - 1, month := 12, day := 31\<rparr>)"

definition minus_days :: "nat \<Rightarrow> datetime \<Rightarrow> datetime" where
  "minus_days n t = (prev_day ^^ n) t"

definition minus_one_hour :: "datetime \<Rightarrow> datetime" where
  "minus_one_hour t = (if hour t > 0 then t\<lparr>hour := hour t - 1\<rparr> else (prev_day t)\<lparr>hour := 23\<rparr>)"

section \<open>The remote backend and the effects of a run\<close>

text \<open>
  Everything a script does to the outside is a line printed to the console or a call
  executed on the remote backend. A call is a stored procedure (\<open>rpc\<close>), or a select,
  update or insert on a table with its filters. The serialised argument
  \<open>json.dumps(x)\<close> of an insert is kept as \<open>JsonDumps x\<close>.
\<close>

datatype cond =
    IsF string string
  | EqF string pyval
  | LtF string pyval
  | GteF string pyval
  | InF string pyval

datatype field = Plain pyval | JsonDumps pyval

datatype remote_call =
    Rpc string "(string \<times> pyval) list"
  | Select string string bool "cond list"
  | Update string "(string \<times> pyval) list" "cond list"
  | Insert string "(string \<times> field) list"

record reply =
  data :: pyval
  count :: "int option"

datatype response = Raised string | Returned reply

datatype event = Print string | Call remote_call response

text \<open>
  The backend is not part of the repository. It answers each call, possibly depending on
  the calls executed before it in the run, by raising or by returning a reply; the clock
  gives the successive readings of \<open>datetime.utcnow()\<close>.
\<close>

record env =
  backend :: "remote_call list \<Rightarrow> remote_call \<Rightarrow> response"
  clock :: "nat \<Rightarrow> datetime"

record config =
  supabase_key :: string
  dry_run :: bool

record world =
  trace :: "event list"
  ticks :: nat

fun calls_of :: "event list \<Rightarrow> remote_call list" where
  "calls_of [] = []"
| "calls_of (Print _ # es) = calls_of es"
| "calls_of (Call c _ # es) = c # calls_of es"

fun console_of :: "event list \<Rightarrow> string list" where
  "console_of [] = []"
| "console_of (Print s # es) = s # console_of es"
| "console_of (Call _ _ # es) = console_of es"

subsection \<open>Programs: local variables, effects and exceptions\<close>

text \<open>
  A piece of Python code ends with a value, with an exception, or with \<open>sys.exit\<close>
  (\<open>SystemExit\<close>, which is no \<open>Exception\<close>). It is a function from the local
  variables and the world to its outcome and the new local variables and world.
  Assignments made before an exception is raised stay made, as in Python.
\<close>

datatype 'a outcome = Val 'a | Exc exn | Exit int

type_synonym ('l, 'a) prog = "'l \<times> world \<Rightarrow> 'a outcome \<times> 'l \<times> world"

definition return :: "'a \<Rightarrow> ('l, 'a) prog" where
  "return x = (\<lambda>s. (Val x, s))"

definition sys_exit :: "int \<Rightarrow> ('l, 'a) prog" where
  "sys_exit c = (\<lambda>s. (Exit c, s))"

definition bind :: "('l, 'a) prog \<Rightarrow> ('a \<Rightarrow> ('l, 'b) prog) \<Rightarrow> ('l, 'b) prog" where
  "bind m f =
     (\<lambda>s. case m s of
            (Val x, s') \<Rightarrow> f x s'
          | (Exc ex, s') \<Rightarrow> (Exc ex, s')
          | (Exit c, s') \<Rightarrow> (Exit c, s'))"

definition seq :: "('l, unit) prog \<Rightarrow> ('l, 'b) prog \<Rightarrow> ('l, 'b) prog" where
  "seq m k = bind m (\<lambda>_. k)"

text \<open>An operation on values, which gives a value or raises.\<close>

definition lift :: "exn + 'a \<Rightarrow> ('l, 'a) prog" where
  "lift r = (\<lambda>s. (case r of Inl ex \<Rightarrow> Exc ex | Inr x \<Rightarrow> Val x, s))"

definition gets :: "('l \<Rightarrow> 'a) \<Rightarrow> ('l, 'a) prog" where
  "gets f = (\<lambda>s. (Val (f (fst s)), s))"

definition modify :: "('l \<Rightarrow> 'l) \<Rightarrow> ('l, unit) prog" where
  "modify f = (\<lambda>s. (Val (), (f (fst s), snd s)))"

definition print :: "string \<Rightarrow> ('l, unit) prog" where
  "print str = (\<lambda>s. (Val (), (fst s, (snd s)\<lparr>trace := trace (snd s) @ [Print str]\<rparr>)))"

text \<open>
  \<open>.execute()\<close>: the backend answers on the calls made so far, the call and its
  answer are recorded, and a raising answer is raised in the script.
\<close>

definition answer :: "response \<Rightarrow> reply outcome" where
  "answer r = (case r of Raised msg \<Rightarrow> Exc (RemoteError msg) | Returned rep \<Rightarrow> Val rep)"

definition execute :: "env \<Rightarrow> remote_call \<Rightarrow> ('l, reply) prog" where
  "execute e c =
     (\<lambda>s. let r = backend e (calls_of (trace (snd s))) c
          in (answer r, (fst s, (snd s)\<lparr>trace := trace (snd s) @ [Call c r]\<rparr>)))"

definition utcnow :: "env \<Rightarrow> ('l, datetime) prog" where
  "utcnow e = (\<lambda>s. (Val (clock e (ticks (snd s))), (fst s, (snd s)\<lparr>ticks := Suc (ticks (snd s))\<rparr>)))"

text \<open>\<open>try: m except Exception as e: h e\<close>; a \<open>SystemExit\<close> passes through.\<close>

definition try_except :: "('l, 'a) prog \<Rightarrow> (exn \<Rightarrow> ('l, 'a) prog) \<Rightarrow> ('l, 'a) prog" where
  "try_except m h =
     (\<lambda>s. case m s of
            (Val x, s') \<Rightarrow> (Val x, s')
          | (Exc ex, s') \<Rightarrow> h ex s'
          | (Exit c, s') \<Rightarrow> (Exit c, s'))"

text \<open>A function call: the callee runs on its own local variables.\<close>

definition call :: "'k \<Rightarrow> ('k, 'a) prog \<Rightarrow> ('l, 'a) prog" where
  "call l0 m = (\<lambda>s. case m (l0, snd s) of (r, s') \<Rightarrow> (r, (fst s, snd s')))"

fun foreach :: "'a list \<Rightarrow> ('a \<Rightarrow> ('l, unit) prog) \<Rightarrow> ('l, unit) prog" where
  "foreach [] body = return ()"
| "foreach (x # xs) body = seq (body x) (foreach xs body)"

text \<open>The exit code of \<open>sys.exit(main())\<close>; an uncaught exception ends the process with 1.\<close>

definition exit_code :: "int outcome \<Rightarrow> int" where
  "exit_code r = (case r of Val c \<Rightarrow> c | Exit c \<Rightarrow> c | Exc _ \<Rightarrow> 1)"

definition check_mark :: string where "check_mark = [CHR 0xE2, CHR 0x9C, CHR 0x93]"
definition ballot_x :: string where "ballot_x = [CHR 0xE2, CHR 0x9C, CHR 0x97]"
definition right_arrow :: string where "right_arrow = [CHR 0xE2, CHR 0x86, CHR 0x92]"
definition warning_sign :: string where
  "warning_sign = [CHR 0xE2, CHR 0x9A, CHR 0xA0, CHR 0xEF, CHR 0xB8, CHR 0x8F]"
definition white_check_mark :: string where "white_check_mark = [CHR 0xE2, CHR 0x9C, CHR 0x85]"
definition newline :: char where "newline = CHR 0x0A"

text \<open>\<open>get_client\<close> (the same in both scripts): no key, no run.\<close>

definition get_client :: "config \<Rightarrow> ('l, unit) prog" where
  "get_client cfg =
     (if supabase_key cfg = []
      then seq (print ''ERROR: SUPABASE_SERVICE_ROLE_KEY environment variable not set'')
               (sys_exit 1)
      else return ())"

section \<open>The daily consistency check\<close>

subsection \<open>The three reports\<close>

definition check_missing_earnings :: "env \<Rightarrow> ('l, pyval) prog" where
  "check_missing_earnings e =
     bind (execute e (Rpc ''get_submissions_missing_earnings'' [])) (\<lambda>result.
       if truthy (data result) then return (data result) else return (PList []))"

definition check_payout_mismatches :: "env \<Rightarrow> ('l, pyval) prog" where
  "check_payout_mismatches e =
     bind (execute e (Rpc ''get_payout_mismatches'' [])) (\<lambda>result.
       if truthy (data result) then return (data result) else return (PList []))"

definition check_pool_balance_issues :: "env \<Rightarrow> ('l, pyval) prog" where
  "check_pool_balance_issues e =
     bind (execute e (Rpc ''get_pool_balance_issues'' [])) (\<lambda>result.
       if truthy (data result) then return (data result) else return (PList []))"

subsection \<open>The two repairs\<close>

record fix_counts =
  fixed :: nat
  failed :: nat

definition repair_call :: "pyval \<Rightarrow> pyval \<Rightarrow> pyval \<Rightarrow> remote_call" where
  "repair_call sid uid n =
     Rpc ''process_submission_earnings''
       [(''p_submission_id'', sid), (''p_user_id'', uid), (''p_pull_up_count'', n)]"

text \<open>The body of the loop of \<open>fix_missing_earnings\<close>, for one submission.\<close>

definition fix_missing_earnings_step :: "env \<Rightarrow> pyval \<Rightarrow> (fix_counts, unit) prog" where
  "fix_missing_earnings_step e sub =
     try_except
       (bind (lift (subscript sub ''submission_id'')) (\<lambda>sid.
        bind (lift (subscript sub ''user_id'')) (\<lambda>uid.
        bind (lift (subscript sub ''actual_pull_up_count'')) (\<lambda>n.
        bind (execute e (repair_call sid uid n)) (\<lambda>result.
        bind (if truthy (data result)
              then bind (lift (dict_get (data result) (PStr ''success'') PNone)) (\<lambda>ok.
                     return (truthy ok))
              else return False) (\<lambda>success.
        if success then
          seq (modify (\<lambda>l. l\<lparr>fixed := fixed l + 1\<rparr>))
         (bind (lift (subscript sub ''full_name'')) (\<lambda>name.
          bind (lift (dict_get (data result) (PStr ''dollars_earned'') (PInt 0))) (\<lambda>dollars.
          print (''  '' @ check_mark @ '' Fixed: '' @ py_str name @ '' - $'' @ py_str dollars))))
        else
          seq (modify (\<lambda>l. l\<lparr>failed := failed l + 1\<rparr>))
         (bind (lift (subscript sub ''full_name'')) (\<lambda>name.
          print (''  '' @ ballot_x @ '' Failed: '' @ py_str name @ '' - ''
                 @ py_str (data result))))))))))
       (\<lambda>ex.
          seq (modify (\<lambda>l. l\<lparr>failed := failed l + 1\<rparr>))
         (bind (lift (subscript sub ''full_name'')) (\<lambda>name.
          print (''  '' @ ballot_x @ '' Error: '' @ py_str name @ '' - '' @ str_exn ex))))"

definition fix_missing_earnings :: "env \<Rightarrow> pyval \<Rightarrow> ('l, fix_counts) prog" where
  "fix_missing_earnings e submissions =
     call \<lparr>fixed = 0, failed = 0\<rparr>
       (bind (lift (py_iter submissions)) (\<lambda>subs.
        seq (foreach subs (fix_missing_earnings_step e))
            (gets (\<lambda>l. l))))"

definition payout_update :: "pyval \<Rightarrow> datetime \<Rightarrow> pyval \<Rightarrow> remote_call" where
  "payout_update amount now pid =
     Update ''payout_requests''
       [(''amount_dollars'', amount), (''updated_at'', PStr (isoformat now))]
       [EqF ''id'' pid]"

definition fix_payout_mismatches_step :: "env \<Rightarrow> pyval \<Rightarrow> (fix_counts, unit) prog" where
  "fix_payout_mismatches_step e m =
     try_except
       (bind (lift (subscript m ''correct_amount'')) (\<lambda>amount.
        bind (utcnow e) (\<lambda>now.
        bind (lift (subscript m ''payout_id'')) (\<lambda>pid.
        bind (execute e (payout_update amount now pid)) (\<lambda>_.
        seq (modify (\<lambda>l. l\<lparr>fixed := fixed l + 1\<rparr>))
       (bind (lift (subscript m ''full_name'')) (\<lambda>name.
        bind (lift (subscript m ''current_amount'')) (\<lambda>current.
        bind (lift (subscript m ''correct_amount'')) (\<lambda>correct.
        print (''  '' @ check_mark @ '' Fixed: '' @ py_str name @ '' $'' @ py_str current
               @ '' '' @ right_arrow @ '' $'' @ py_str correct))))))))))
       (\<lambda>ex.
          seq (modify (\<lambda>l. l\<lparr>failed := failed l + 1\<rparr>))
         (bind (lift (subscript m ''full_name'')) (\<lambda>name.
          print (''  '' @ ballot_x @ '' Error: '' @ py_str name @ '' - '' @ str_exn ex))))"

definition fix_payout_mismatches :: "env \<Rightarrow> pyval \<Rightarrow> ('l, fix_counts) prog" where
  "fix_payout_mismatches e mismatches =
     call \<lparr>fixed = 0, failed = 0\<rparr>
       (bind (lift (py_iter mismatches)) (\<lambda>ms.
        seq (foreach ms (fix_payout_mismatches_step e))
            (gets (\<lambda>l. l))))"

subsection \<open>The log row\<close>

definition log_insert :: "nat \<Rightarrow> nat \<Rightarrow> (pyval \<times> pyval) list \<Rightarrow> remote_call" where
  "log_insert issues_found issues_fixed dets =
     Insert ''monitoring.system_errors''
       [(''error_type'', Plain (PStr ''DAILY_CONSISTENCY_CHECK'')),
        (''error_message'', Plain (PStr (''Found '' @ show_nat issues_found
                                         @ '' issues, fixed '' @ show_nat issues_fixed))),
        (''context'', JsonDumps (PDict dets))]"

definition log_check_result :: "env \<Rightarrow> nat \<Rightarrow> nat \<Rightarrow> (pyval \<times> pyval) list \<Rightarrow> ('l, unit) prog" where
  "log_check_result e issues_found issues_fixed dets =
     try_except
       (bind (execute e (log_insert issues_found issues_fixed dets)) (\<lambda>_. return ()))
       (\<lambda>ex. print (''Warning: Could not log to monitoring table: '' @ str_exn ex))"

subsection \<open>\<open>main\<close>\<close>

record main_locals =
  total_issues :: nat
  total_fixed :: nat
  details :: "(pyval \<times> pyval) list"

definition set_detail :: "string \<Rightarrow> pyval \<Rightarrow> (main_locals, unit) prog" where
  "set_detail k v = modify (\<lambda>l. l\<lparr>details := dict_set (details l) (PStr k) v\<rparr>)"

text \<open>Check 1 of \<open>main\<close>: the \<open>try\<close> block on missing earnings and its handler.\<close>

definition check_1 :: "config \<Rightarrow> env \<Rightarrow> (main_locals, unit) prog" where
  "check_1 cfg e =
     seq (print (newline # ''[1/3] Checking for approved submissions without earnings...''))
    (try_except
       (bind (check_missing_earnings e) (\<lambda>missing.
        if truthy missing then
          bind (lift (py_len missing)) (\<lambda>n.
          seq (print (''  Found '' @ show_nat n @ '' submissions missing earnings''))
         (seq (modify (\<lambda>l. l\<lparr>total_issues := total_issues l + n\<rparr>))
         (seq (set_detail ''missing_earnings'' (PInt (int n)))
         (if \<not> dry_run cfg then
            bind (fix_missing_earnings e missing) (\<lambda>result.
            seq (modify (\<lambda>l. l\<lparr>total_fixed := total_fixed l + fixed result\<rparr>))
                (set_detail ''earnings_fixed'' (PInt (int (fixed result)))))
          else return ()))))
        else print (''  '' @ check_mark @ '' No issues found'')))
       (\<lambda>ex.
          seq (print (''  '' @ ballot_x @ '' Check failed: '' @ str_exn ex))
              (set_detail ''missing_earnings_error'' (PStr (str_exn ex)))))"

text \<open>Check 2: payout mismatches.\<close>

definition check_2 :: "config \<Rightarrow> env \<Rightarrow> (main_locals, unit) prog" where
  "check_2 cfg e =
     seq (print (newline # ''[2/3] Checking for payout amount mismatches...''))
    (try_except
       (bind (check_payout_mismatches e) (\<lambda>mismatches.
        if truthy mismatches then
          bind (lift (py_len mismatches)) (\<lambda>n.
          seq (print (''  Found '' @ show_nat n @ '' payout mismatches''))
         (seq (modify (\<lambda>l. l\<lparr>total_issues := total_issues l + n\<rparr>))
         (seq (set_detail ''payout_mismatches'' (PInt (int n)))
         (if \<not> dry_run cfg then
            bind (fix_payout_mismatches e mismatches) (\<lambda>result.
            seq (modify (\<lambda>l. l\<lparr>total_fixed := total_fixed l + fixed result\<rparr>))
                (set_detail ''payouts_fixed'' (PInt (int (fixed result)))))
          else return ()))))
        else print (''  '' @ check_mark @ '' No issues found'')))
       (\<lambda>ex.
          seq (print (''  '' @ ballot_x @ '' Check failed: '' @ str_exn ex))
              (set_detail ''payout_mismatch_error'' (PStr (str_exn ex)))))"

definition print_pool_issue :: "pyval \<Rightarrow> ('l, unit) prog" where
  "print_pool_issue p =
     bind (lift (subscript p ''week_start'')) (\<lambda>ws.
     bind (lift (subscript p ''week_end'')) (\<lambda>we.
     bind (lift (subscript p ''remaining'')) (\<lambda>r.
     bind (lift (subscript p ''calculated'')) (\<lambda>c.
     print (''    - '' @ py_str ws @ '' to '' @ py_str we @ '': shows $'' @ py_str r
            @ '' but should be $'' @ py_str c)))))"

text \<open>Check 3: pool balances, reported only.\<close>

definition check_3 :: "env \<Rightarrow> (main_locals, unit) prog" where
  "check_3 e =
     seq (print (newline # ''[3/3] Checking for pool balance discrepancies...''))
    (try_except
       (bind (check_pool_balance_issues e) (\<lambda>pool_issues.
        if truthy pool_issues then
          bind (lift (py_len pool_issues)) (\<lambda>n.
          seq (print (''  Found '' @ show_nat n @ '' pool balance issues''))
         (bind (lift (py_iter pool_issues)) (\<lambda>ps.
          seq (foreach ps print_pool_issue)
         (seq (modify (\<lambda>l. l\<lparr>total_issues := total_issues l + n\<rparr>))
              (set_detail ''pool_issues'' (PInt (int n)))))))
        else print (''  '' @ check_mark @ '' No issues found'')))
       (\<lambda>ex.
          seq (print (''  '' @ ballot_x @ '' Check failed: '' @ str_exn ex))
              (set_detail ''pool_balance_error'' (PStr (str_exn ex)))))"

definition banner :: string where
  "banner = replicate 60 CHR ''=''"

text \<open>The summary of \<open>main\<close>: the totals, the log row, the return value.\<close>

definition summary :: "config \<Rightarrow> env \<Rightarrow> (main_locals, int) prog" where
  "summary cfg e =
     seq (print (newline # banner))
    (seq (print ''SUMMARY'')
    (seq (print banner)
    (bind (gets total_issues) (\<lambda>ti.
     bind (gets total_fixed) (\<lambda>tf.
     bind (gets details) (\<lambda>dets.
     seq (print (''Total issues found: '' @ show_nat ti))
    (seq (print (''Total issues fixed: '' @ show_nat tf))
    (seq (if ti > 0 \<and> \<not> dry_run cfg then log_check_result e ti tf dets else return ())
    (if ti > 0 then
       seq (print (newline # warning_sign @ ''  Issues were found. Review the output above.''))
           (return 1)
     else
       seq (print (newline # white_check_mark @ '' All checks passed!''))
           (return 0))))))))))"

definition consistency_header :: "config \<Rightarrow> env \<Rightarrow> ('l, unit) prog" where
  "consistency_header cfg e =
     seq (print banner)
    (seq (print ''Pull-Up Club Daily Consistency Check'')
    (bind (utcnow e) (\<lambda>now.
     seq (print (''Time: '' @ isoformat now @ ''Z''))
    (seq (print (''Mode: '' @ (if dry_run cfg then ''DRY RUN'' else ''LIVE'')))
         (print banner)))))"

definition consistency_main :: "config \<Rightarrow> env \<Rightarrow> (main_locals, int) prog" where
  "consistency_main cfg e =
     seq (consistency_header cfg e)
    (seq (get_client cfg)
    (seq (check_1 cfg e)
    (seq (check_2 cfg e)
    (seq (check_3 e)
         (summary cfg e)))))"

text \<open>
  A run of the script, \<open>sys.exit(main())\<close> from an empty console: the outcome of
  \<open>main\<close>, its local variables at the end, and the world.
\<close>

definition world0 :: world where
  "world0 = \<lparr>trace = [], ticks = 0\<rparr>"

definition consistency_run :: "config \<Rightarrow> env \<Rightarrow> int outcome \<times> main_locals \<times> world" where
  "consistency_run cfg e =
     consistency_main cfg e (\<lparr>total_issues = 0, total_fixed = 0, details = []\<rparr>, world0)"

definition run_exit :: "int outcome \<times> 'l \<times> world \<Rightarrow> int" where
  "run_exit r = exit_code (fst r)"

definition run_trace :: "int outcome \<times> 'l \<times> world \<Rightarrow> event list" where
  "run_trace r = trace (snd (snd r))"

definition run_locals :: "int outcome \<times> 'l \<times> world \<Rightarrow> 'l" where
  "run_locals r = fst (snd r)"

section \<open>The system health check\<close>

subsection \<open>\<open>run_sql_health_check\<close>\<close>

definition sql_error :: "string \<Rightarrow> pyval" where
  "sql_error msg = PDict [(PStr ''overall_status'', PStr ''error''), (PStr ''message'', PStr msg)]"

definition print_balance_fix :: "pyval \<Rightarrow> ('l, unit) prog" where
  "print_balance_fix fix =
     bind (lift (subscript fix ''week_start'')) (\<lambda>ws.
     bind (lift (subscript fix ''was'')) (\<lambda>was.
     bind (lift (subscript fix ''now'')) (\<lambda>now.
     print (''    - '' @ py_str ws @ '': $'' @ py_str was @ '' -> $'' @ py_str now))))"

definition print_payout_issue :: "pyval \<Rightarrow> ('l, unit) prog" where
  "print_payout_issue issue =
     bind (lift (subscript issue ''name'')) (\<lambda>name.
     bind (lift (subscript issue ''type'')) (\<lambda>ty.
     print (''    - '' @ py_str name @ '': '' @ py_str ty)))"

text \<open>The report on the data the procedure returned, up to \<open>return data\<close>.\<close>

definition report_sql_data :: "pyval \<Rightarrow> ('l, unit) prog" where
  "report_sql_data d =
     bind (lift (dict_get d (PStr ''overall_status'') (PStr ''unknown''))) (\<lambda>st.
     seq (print (''  Overall status: '' @ py_str st))
    (bind (lift (dict_get d (PStr ''weekly_pool'') (PDict []))) (\<lambda>pool.
     bind (lift (dict_get pool (PStr ''action'') (PStr ''unknown''))) (\<lambda>action.
     bind (lift (dict_get pool (PStr ''week_start'') PNone)) (\<lambda>ws.
     bind (lift (dict_get pool (PStr ''week_end'') PNone)) (\<lambda>we.
     seq (print (''  Weekly pool: '' @ py_str action @ '' - '' @ py_str ws @ '' to '' @ py_str we))
    (bind (lift (dict_get d (PStr ''duplicate_pools'') (PDict []))) (\<lambda>dups.
     bind (lift (dict_get dups (PStr ''duplicates_fixed'') (PInt 0))) (\<lambda>df.
     bind (lift (py_gt df 0)) (\<lambda>some_dups.
     seq (if some_dups then
            bind (lift (subscript dups ''duplicates_fixed'')) (\<lambda>n.
            print (''  FIXED: '' @ py_str n @ '' duplicate pools removed''))
          else print ''  No duplicate pools'')
    (bind (lift (dict_get d (PStr ''pool_balances'') (PDict []))) (\<lambda>balances.
     bind (lift (dict_get balances (PStr ''pools_fixed'') (PInt 0))) (\<lambda>pf.
     bind (lift (py_gt pf 0)) (\<lambda>some_fixed.
     seq (if some_fixed then
            bind (lift (subscript balances ''pools_fixed'')) (\<lambda>n.
            seq (print (''  FIXED: '' @ py_str n @ '' pool balances corrected''))
           (bind (lift (dict_get balances (PStr ''details'') (PList []))) (\<lambda>ds.
            bind (lift (py_iter ds)) (\<lambda>fixes.
            foreach fixes print_balance_fix))))
          else print ''  Pool balances correct'')
    (bind (lift (dict_get d (PStr ''monthly_payouts'') (PDict []))) (\<lambda>payouts.
     bind (lift (dict_get payouts (PStr ''issues_found'') (PInt 0))) (\<lambda>found.
     bind (lift (py_gt found 0)) (\<lambda>some_issues.
     seq (if some_issues then
            bind (lift (subscript payouts ''issues_found'')) (\<lambda>n.
            bind (lift (dict_get payouts (PStr ''month'') PNone)) (\<lambda>mo.
            seq (print (''  WARNING: '' @ py_str n @ '' payout issues for '' @ py_str mo))
           (bind (lift (dict_get payouts (PStr ''issues'') (PList []))) (\<lambda>is.
            bind (lift (py_iter is)) (\<lambda>issues.
            foreach issues print_payout_issue)))))
          else
            bind (lift (dict_get payouts (PStr ''month'') PNone)) (\<lambda>mo.
            print (''  Monthly payouts OK for '' @ py_str mo)))
    (bind (lift (dict_get d (PStr ''pending_emails'') (PInt 0))) (\<lambda>pe.
     print (''  Pending emails: '' @ py_str pe)))))))))))))))))))))"

definition run_sql_health_check :: "env \<Rightarrow> ('l, pyval) prog" where
  "run_sql_health_check e =
     seq (print (newline # ''[1/5] Running SQL health check...''))
    (try_except
       (bind (execute e (Rpc ''run_system_health_check'' [])) (\<lambda>result.
        if truthy (data result) then
          seq (report_sql_data (data result)) (return (data result))
        else return (sql_error ''No data returned'')))
       (\<lambda>ex.
          seq (print (''  ERROR: '' @ str_exn ex))
              (return (sql_error (str_exn ex)))))"

subsection \<open>\<open>check_email_queue_health\<close>\<close>

record email_locals =
  pending_count :: nat
  failed_count :: nat
  by_type :: "(pyval \<times> pyval) list"

definition count_email :: "pyval \<Rightarrow> (email_locals, unit) prog" where
  "count_email email =
     bind (lift (subscript email ''status'')) (\<lambda>st.
     if st = PStr ''pending'' then
       seq (modify (\<lambda>l. l\<lparr>pending_count := pending_count l + 1\<rparr>))
      (bind (lift (subscript email ''email_type'')) (\<lambda>ty.
       bind (gets by_type) (\<lambda>bt.
       bind (lift (dict_get (PDict bt) ty (PInt 0))) (\<lambda>old.
       bind (lift (subscript email ''email_type'')) (\<lambda>ty'.
       modify (\<lambda>l. l\<lparr>by_type := dict_set (by_type l) ty'
                          (case old of PInt i \<Rightarrow> PInt (i + 1) | _ \<Rightarrow> old)\<rparr>))))))
     else
       bind (lift (subscript email ''status'')) (\<lambda>st'.
       if st' = PStr ''failed'' then modify (\<lambda>l. l\<lparr>failed_count := failed_count l + 1\<rparr>)
       else return ()))"

definition or_zero :: "int option \<Rightarrow> int" where
  "or_zero c = (case c of None \<Rightarrow> 0 | Some n \<Rightarrow> n)"

definition pending_select :: remote_call where
  "pending_select = Select ''email_notifications'' ''status, email_type'' False [IsF ''sent_at'' ''null'']"

definition stuck_select :: "datetime \<Rightarrow> remote_call" where
  "stuck_select now =
     Select ''email_notifications'' ''id'' True
       [IsF ''sent_at'' ''null'', EqF ''status'' (PStr ''pending''),
        LtF ''created_at'' (PStr (isoformat (minus_one_hour now)))]"

definition check_email_queue_health :: "env \<Rightarrow> ('l, pyval) prog" where
  "check_email_queue_health e =
     seq (print (newline # ''[2/5] Checking email queue health...''))
    (call \<lparr>pending_count = 0, failed_count = 0, by_type = []\<rparr>
      (try_except
         (bind (execute e pending_select) (\<lambda>result.
          bind (lift (if truthy (data result) then py_iter (data result) else Inr [])) (\<lambda>emails.
          seq (foreach emails count_email)
         (bind (gets pending_count) (\<lambda>pc.
          bind (gets failed_count) (\<lambda>fc.
          bind (gets by_type) (\<lambda>bt.
          seq (print (''  Pending: '' @ show_nat pc @ '', Failed: '' @ show_nat fc))
         (seq (if bt \<noteq> [] then print (''  By type: '' @ py_repr (PDict bt)) else return ())
         (bind (utcnow e) (\<lambda>now.
          bind (execute e (stuck_select now)) (\<lambda>stuck.
          seq (if or_zero (count stuck) > 0
               then print (''  WARNING: '' @ show_int (or_zero (count stuck))
                           @ '' emails stuck for over 1 hour'')
               else return ())
              (return (PDict [(PStr ''pending'', PInt (int pc)), (PStr ''failed'', PInt (int fc)),
                              (PStr ''stuck'', PInt (or_zero (count stuck))),
                              (PStr ''by_type'', PDict bt)])))))))))))))
         (\<lambda>ex.
            seq (print (''  ERROR: '' @ str_exn ex))
                (return (PDict [(PStr ''error'', PStr (str_exn ex))])))))"

subsection \<open>\<open>check_monthly_graphics\<close>\<close>

text \<open>\<open>v[:5]\<close>, for the values that have a length.\<close>

definition slice5 :: "pyval \<Rightarrow> exn + pyval" where
  "slice5 v =
     (case v of
        PList xs \<Rightarrow> Inr (PList (take 5 xs))
      | PStr s \<Rightarrow> Inr (PStr (take 5 s))
      | PDict _ \<Rightarrow> Inl (TypeError (''unhashable type: '' @ quoted ''slice''))
      | _ \<Rightarrow> Inl (TypeError (quoted (type_name v) @ '' object is not subscriptable'')))"

definition print_missing_user :: "pyval \<Rightarrow> ('l, unit) prog" where
  "print_missing_user user =
     bind (lift (dict_get user (PStr ''full_name'') (PStr ''Unknown''))) (\<lambda>name.
     bind (lift (dict_get user (PStr ''total_dollars'') (PInt 0))) (\<lambda>dollars.
     print (''    - '' @ py_str name @ '': $'' @ py_str dollars)))"

definition graphics_rpc :: "string \<Rightarrow> remote_call" where
  "graphics_rpc prev_month = Rpc ''get_users_missing_graphics'' [(''p_month_year'', PStr prev_month)]"

definition graphic_emails_select :: remote_call where
  "graphic_emails_select =
     Select ''email_notifications'' ''id'' True
       [EqF ''email_type'' (PStr ''monthly_graphic''), IsF ''sent_at'' ''null'',
        EqF ''status'' (PStr ''pending'')]"

definition check_monthly_graphics :: "env \<Rightarrow> ('l, pyval) prog" where
  "check_monthly_graphics e =
     seq (print (newline # ''[3/5] Checking monthly graphics status...''))
    (try_except
       (bind (utcnow e) (\<lambda>now1.
        bind (utcnow e) (\<lambda>now2.
        bind (return (strftime_Ym (prev_day (now2\<lparr>day := 1\<rparr>)))) (\<lambda>prev_month.
        bind (execute e (graphics_rpc prev_month)) (\<lambda>result.
        bind (return (if truthy (data result) then data result else PList [])) (\<lambda>missing.
        seq (if truthy missing then
               bind (lift (py_len missing)) (\<lambda>n.
               seq (print (''  WARNING: '' @ show_nat n @ '' users missing graphics for ''
                           @ prev_month))
              (bind (lift (slice5 missing)) (\<lambda>first5.
               bind (lift (py_iter first5)) (\<lambda>users.
               seq (foreach users print_missing_user)
                   (if n > 5 then print (''    ... and '' @ show_nat (n - 5) @ '' more'')
                    else return ())))))
             else print (''  All graphics generated for '' @ prev_month))
       (bind (execute e graphic_emails_select) (\<lambda>pending.
        seq (print (''  Pending graphic emails: '' @ show_int (or_zero (count pending))))
       (bind (lift (py_len missing)) (\<lambda>n.
        return (PDict [(PStr ''month'', PStr prev_month),
                       (PStr ''missing_graphics'', PInt (int n)),
                       (PStr ''pending_emails'', PInt (or_zero (count pending)))])))))))))))
       (\<lambda>ex.
          seq (print (''  Note: Graphics check skipped ('' @ str_exn ex @ '')''))
              (return (PDict [(PStr ''skipped'', PBool True)]))))"

subsection \<open>\<open>check_edge_function_health\<close>\<close>

definition approved_select :: "datetime \<Rightarrow> remote_call" where
  "approved_select now =
     Select ''submissions'' ''id, approved_at, user_id'' False
       [EqF ''status'' (PStr ''approved''),
        GteF ''approved_at'' (PStr (isoformat (minus_days 7 now)))]"

definition earnings_select :: "pyval list \<Rightarrow> remote_call" where
  "earnings_select ids =
     Select ''weekly_earnings'' ''submission_id'' True [InF ''submission_id'' (PList ids)]"

fun subscript_all :: "pyval list \<Rightarrow> string \<Rightarrow> exn + pyval list" where
  "subscript_all [] k = Inr []"
| "subscript_all (x # xs) k =
     (case subscript x k of
        Inl ex \<Rightarrow> Inl ex
      | Inr v \<Rightarrow> (case subscript_all xs k of Inl ex \<Rightarrow> Inl ex | Inr vs \<Rightarrow> Inr (v # vs)))"

definition check_edge_function_health :: "env \<Rightarrow> ('l, pyval) prog" where
  "check_edge_function_health e =
     seq (print (newline # ''[4/5] Checking Edge Function health...''))
    (try_except
       (bind (utcnow e) (\<lambda>now.
        bind (execute e (approved_select now)) (\<lambda>recent_approved.
        bind (lift (py_len (if truthy (data recent_approved) then data recent_approved
                            else PList []))) (\<lambda>approved_count.
        seq (if approved_count > 0 then
               bind (lift (py_iter (data recent_approved))) (\<lambda>rows.
               bind (lift (subscript_all rows ''id'')) (\<lambda>submission_ids.
               bind (execute e (earnings_select submission_ids)) (\<lambda>earnings.
               if or_zero (count earnings) < int approved_count then
                 print (''  WARNING: '' @ show_nat approved_count
                        @ '' approved submissions but only '' @ show_int (or_zero (count earnings))
                        @ '' earnings records'')
               else
                 print (''  '' @ show_nat approved_count @ '' recent approvals, all have earnings''))))
             else print ''  No recent approvals to check'')
            (return (PDict [(PStr ''recent_approvals'', PInt (int approved_count)),
                            (PStr ''healthy'', PBool True)]))))))
       (\<lambda>ex.
          seq (print (''  ERROR: '' @ str_exn ex))
              (return (PDict [(PStr ''error'', PStr (str_exn ex))]))))"

subsection \<open>\<open>generate_summary_report\<close>\<close>

text \<open>The list \<open>issues\<close> that \<open>generate_summary_report\<close> builds from the results.\<close>

definition and_then :: "exn + 'a \<Rightarrow> ('a \<Rightarrow> exn + 'b) \<Rightarrow> exn + 'b" where
  "and_then r f = (case r of Inl ex \<Rightarrow> Inl ex | Inr x \<Rightarrow> f x)"

definition summary_issues :: "pyval \<Rightarrow> exn + string list" where
  "summary_issues res =
     and_then (dict_get res (PStr ''sql_health'') (PDict [])) (\<lambda>sql.
     and_then (dict_get sql (PStr ''overall_status'') PNone) (\<lambda>st.
     and_then (Inr (if st \<noteq> PStr ''healthy'' then [''SQL health check found issues''] else [])) (\<lambda>i1.
     and_then (dict_get res (PStr ''email_queue'') (PDict [])) (\<lambda>email.
     and_then (dict_get email (PStr ''stuck'') (PInt 0)) (\<lambda>stuck.
     and_then (py_gt stuck 0) (\<lambda>is_stuck.
     and_then (if is_stuck
               then and_then (subscript email ''stuck'') (\<lambda>n.
                      Inr (i1 @ [py_str n @ '' emails stuck in queue'']))
               else Inr i1) (\<lambda>i2.
     and_then (dict_get email (PStr ''failed'') (PInt 0)) (\<lambda>fl.
     and_then (py_gt fl 10) (\<lambda>many_failed.
     and_then (if many_failed
               then and_then (subscript email ''failed'') (\<lambda>n.
                      Inr (i2 @ [py_str n @ '' failed emails'']))
               else Inr i2) (\<lambda>i3.
     and_then (dict_get res (PStr ''monthly_graphics'') (PDict [])) (\<lambda>graphics.
     and_then (dict_get graphics (PStr ''missing_graphics'') (PInt 0)) (\<lambda>mg.
     and_then (py_gt mg 0) (\<lambda>some_missing.
     and_then (if some_missing
               then and_then (subscript graphics ''missing_graphics'') (\<lambda>n.
                      Inr (i3 @ [py_str n @ '' users missing monthly graphics'']))
               else Inr i3) (\<lambda>i4.
     and_then (dict_get res (PStr ''edge_functions'') (PDict [])) (\<lambda>edge.
     and_then (dict_get edge (PStr ''error'') PNone) (\<lambda>err.
     if truthy err
     then and_then (subscript edge ''error'') (\<lambda>msg.
            Inr (i4 @ [''Edge function check error: '' @ py_str msg]))
     else Inr i4))))))))))))))))"

definition print_issue :: "string \<Rightarrow> ('l, unit) prog" where
  "print_issue issue = print (''    - '' @ issue)"

definition generate_summary_report :: "pyval \<Rightarrow> ('l, string) prog" where
  "generate_summary_report results =
     seq (print (newline # ''[5/5] Generating summary...''))
    (bind (lift (summary_issues results)) (\<lambda>issues.
     if issues \<noteq> [] then
       seq (print (newline # ''  ISSUES FOUND: '' @ show_nat (length issues)))
      (seq (foreach issues print_issue)
           (return ''issues_found''))
     else
       seq (print (newline # ''  ALL SYSTEMS HEALTHY''))
           (return ''healthy'')))"

subsection \<open>\<open>main\<close>\<close>

record health_locals =
  results :: "(pyval \<times> pyval) list"
  status :: "string option"

definition set_result :: "string \<Rightarrow> pyval \<Rightarrow> (health_locals, unit) prog" where
  "set_result k v = modify (\<lambda>l. l\<lparr>results := dict_set (results l) (PStr k) v\<rparr>)"

definition health_insert :: "string \<Rightarrow> (pyval \<times> pyval) list \<Rightarrow> datetime \<Rightarrow> remote_call" where
  "health_insert st res now =
     Insert ''monitoring.system_health_checks''
       [(''check_type'', Plain (PStr ''DAILY_HEALTH_CHECK'')),
        (''status'', Plain (PStr st)),
        (''results'', JsonDumps (PDict res)),
        (''created_at'', Plain (PStr (isoformat now)))]"

definition health_header :: "config \<Rightarrow> env \<Rightarrow> ('l, unit) prog" where
  "health_header cfg e =
     seq (print banner)
    (seq (print ''Pull-Up Club System Health Check'')
    (bind (utcnow e) (\<lambda>now.
     seq (print (''Time: '' @ isoformat now @ ''Z''))
    (seq (print (''Mode: '' @ (if dry_run cfg then ''DRY RUN'' else ''LIVE'')))
         (print banner)))))"

text \<open>The four checks of \<open>main\<close>, each stored in \<open>results\<close>.\<close>

definition health_checks :: "env \<Rightarrow> (health_locals, unit) prog" where
  "health_checks e =
     bind (run_sql_health_check e) (\<lambda>r1.
     seq (set_result ''sql_health'' r1)
    (bind (check_email_queue_health e) (\<lambda>r2.
     seq (set_result ''email_queue'' r2)
    (bind (check_monthly_graphics e) (\<lambda>r3.
     seq (set_result ''monthly_graphics'' r3)
    (bind (check_edge_function_health e) (\<lambda>r4.
     set_result ''edge_functions'' r4)))))))"

text \<open>The log row of the health check: not in a dry run, and whatever it raises is passed over.\<close>

definition health_log :: "config \<Rightarrow> env \<Rightarrow> string \<Rightarrow> (health_locals, unit) prog" where
  "health_log cfg e st =
     (if \<not> dry_run cfg then
        try_except
          (bind (gets results) (\<lambda>res.
           bind (utcnow e) (\<lambda>now.
           bind (execute e (health_insert st res now)) (\<lambda>_. return ()))))
          (\<lambda>ex. return ())
      else return ())"

definition health_main :: "config \<Rightarrow> env \<Rightarrow> (health_locals, int) prog" where
  "health_main cfg e =
     seq (health_header cfg e)
    (seq (get_client cfg)
    (seq (health_checks e)
    (bind (gets results) (\<lambda>res.
     bind (generate_summary_report (PDict res)) (\<lambda>st.
     seq (modify (\<lambda>l. l\<lparr>status := Some st\<rparr>))
    (seq (print (newline # banner))
    (seq (print ''HEALTH CHECK COMPLETE'')
    (seq (print banner)
    (seq (health_log cfg e st)
         (return (if st = ''healthy'' then 0 else 1)))))))))))"

definition health_run :: "config \<Rightarrow> env \<Rightarrow> int outcome \<times> health_locals \<times> world" where
  "health_run cfg e = health_main cfg e (\<lparr>results = [], status = None\<rparr>, world0)"

section \<open>Vocabulary of the properties\<close>

subsection \<open>What holds after a program\<close>

text \<open>
  \<open>wp m Q s\<close>: running \<open>m\<close> from \<open>s\<close> ends in an outcome and a state that satisfy
  \<open>Q\<close>. \<open>keeps I m\<close>: \<open>m\<close> keeps the invariant \<open>I\<close>, however it ends.
  \<open>returns m\<close>: \<open>m\<close> always ends with a value; \<open>no_exit m\<close>: it never leaves through
  \<open>sys.exit\<close>.
\<close>

definition wp :: "('l, 'a) prog \<Rightarrow> ('a outcome \<Rightarrow> 'l \<times> world \<Rightarrow> bool) \<Rightarrow> 'l \<times> world \<Rightarrow> bool" where
  "wp m Q s = Q (fst (m s)) (snd (m s))"

definition keeps :: "('l \<times> world \<Rightarrow> bool) \<Rightarrow> ('l, 'a) prog \<Rightarrow> bool" where
  "keeps I m = (\<forall>s. I s \<longrightarrow> I (snd (m s)))"

definition on_world :: "(world \<Rightarrow> bool) \<Rightarrow> 'l \<times> world \<Rightarrow> bool" where
  "on_world W s = W (snd s)"

definition on_locals :: "('l \<Rightarrow> bool) \<Rightarrow> 'l \<times> world \<Rightarrow> bool" where
  "on_locals L s = L (fst s)"

definition is_val :: "'a outcome \<Rightarrow> bool" where
  "is_val r = (case r of Val _ \<Rightarrow> True | _ \<Rightarrow> False)"

definition is_exit :: "'a outcome \<Rightarrow> bool" where
  "is_exit r = (case r of Exit _ \<Rightarrow> True | _ \<Rightarrow> False)"

definition returns :: "('l, 'a) prog \<Rightarrow> bool" where
  "returns m = (\<forall>s. is_val (fst (m s)))"

definition no_exit :: "('l, 'a) prog \<Rightarrow> bool" where
  "no_exit m = (\<forall>s. \<not> is_exit (fst (m s)))"

subsection \<open>Calls that change the backend\<close>

text \<open>
  The mutating calls of the two scripts: the earnings repair, every update (the payout
  request) and every insert (the monitoring tables).
\<close>

fun mutating :: "remote_call \<Rightarrow> bool" where
  "mutating (Rpc n a) = (n = ''process_submission_earnings'')"
| "mutating (Select t c k f) = False"
| "mutating (Update t p f) = True"
| "mutating (Insert t p) = True"

definition read_only :: "event list \<Rightarrow> bool" where
  "read_only tr = (\<forall>c \<in> set (calls_of tr). \<not> mutating c)"

subsection \<open>A sample backend\<close>

text \<open>
  A backend on which the scripts are run in the examples below: two submissions miss
  their earnings, one payout request has the wrong amount, every other call returns no
  rows, and the repair of the second submission reports no success.
\<close>

definition sample_sub1 :: pyval where
  "sample_sub1 =
     PDict [(PStr ''submission_id'', PStr ''s1''), (PStr ''user_id'', PStr ''u1''),
            (PStr ''actual_pull_up_count'', PInt 12), (PStr ''full_name'', PStr ''Ann Lee'')]"

definition sample_sub2 :: pyval where
  "sample_sub2 =
     PDict [(PStr ''submission_id'', PStr ''s2''), (PStr ''user_id'', PStr ''u2''),
            (PStr ''actual_pull_up_count'', PInt 20), (PStr ''full_name'', PStr ''Bo Chen'')]"

definition sample_missing :: pyval where
  "sample_missing = PList [sample_sub1, sample_sub2]"

definition sample_mismatch :: pyval where
  "sample_mismatch =
     PDict [(PStr ''payout_id'', PStr ''p1''), (PStr ''full_name'', PStr ''Jane Doe''),
            (PStr ''current_amount'', PInt 40), (PStr ''correct_amount'', PInt 45)]"

definition sample_mismatches :: pyval where
  "sample_mismatches = PList [sample_mismatch]"

definition sample_backend :: "remote_call list \<Rightarrow> remote_call \<Rightarrow> response" where
  "sample_backend h c =
     (if c = Rpc ''get_submissions_missing_earnings'' []
        then Returned \<lparr>data = sample_missing, count = None\<rparr>
      else if c = Rpc ''get_payout_mismatches'' []
        then Returned \<lparr>data = sample_mismatches, count = None\<rparr>
      else if c = repair_call (PStr ''s1'') (PStr ''u1'') (PInt 12)
        then Returned \<lparr>data = PDict [(PStr ''success'', PBool True), (PStr ''dollars_earned'', PInt 12)],
                        count = None\<rparr>
      else if c = repair_call (PStr ''s2'') (PStr ''u2'') (PInt 20)
        then Returned \<lparr>data = PDict [(PStr ''success'', PBool False)], count = None\<rparr>
      else Returned \<lparr>data = PList [], count = Some 0\<rparr>)"

definition sample_clock :: "nat \<Rightarrow> datetime" where
  "sample_clock n =
     \<lparr>year = 2026, month = 3, day = 1, hour = 0, minute = 30, second = n, microsecond = 0\<rparr>"

definition sample_env :: env where
  "sample_env = \<lparr>backend = sample_backend, clock = sample_clock\<rparr>"

definition dry_config :: config where
  "dry_config = \<lparr>supabase_key = ''service-role-key'', dry_run = True\<rparr>"

definition live_config :: config where
  "live_config = \<lparr>supabase_key = ''service-role-key'', dry_run = False\<rparr>"

subsection \<open>Rows of the shape a script reads\<close>

text \<open>
  The remote procedures are expected to return rows that have the fields the scripts
  read. \<open>has_keys v ks\<close>: \<open>v\<close> is a dict with every key of \<open>ks\<close>;
  \<open>the_field v k\<close> is \<open>v[k]\<close> then.
\<close>

definition has_key :: "pyval \<Rightarrow> string \<Rightarrow> bool" where
  "has_key v k = (case subscript v k of Inl _ \<Rightarrow> False | Inr _ \<Rightarrow> True)"

definition has_keys :: "pyval \<Rightarrow> string list \<Rightarrow> bool" where
  "has_keys v ks = list_all (has_key v) ks"

definition the_field :: "pyval \<Rightarrow> string \<Rightarrow> pyval" where
  "the_field v k = (case subscript v k of Inl _ \<Rightarrow> PNone | Inr x \<Rightarrow> x)"

definition mismatch_keys :: "string list" where
  "mismatch_keys = [''payout_id'', ''full_name'', ''current_amount'', ''correct_amount'']"

definition missing_keys :: "string list" where
  "missing_keys = [''submission_id'', ''user_id'', ''actual_pull_up_count'', ''full_name'']"

definition pool_keys :: "string list" where
  "pool_keys = [''week_start'', ''week_end'', ''remaining'', ''calculated'']"

subsection \<open>Counting the calls of a trace\<close>

fun updates_returned :: "event list \<Rightarrow> nat" where
  "updates_returned [] = 0"
| "updates_returned (Call (Update t p f) (Returned r) # es) = Suc (updates_returned es)"
| "updates_returned (ev # es) = updates_returned es"

fun updates_raised :: "event list \<Rightarrow> nat" where
  "updates_raised [] = 0"
| "updates_raised (Call (Update t p f) (Raised msg) # es) = Suc (updates_raised es)"
| "updates_raised (ev # es) = updates_raised es"

definition is_repair :: "remote_call \<Rightarrow> bool" where
  "is_repair c = (case c of Rpc n a \<Rightarrow> n = ''process_submission_earnings'' | _ \<Rightarrow> False)"

definition repairs_of :: "event list \<Rightarrow> remote_call list" where
  "repairs_of tr = filter is_repair (calls_of tr)"

text \<open>The repair call that one missing-earnings record asks for.\<close>

definition repair_of :: "pyval \<Rightarrow> remote_call" where
  "repair_of sub =
     repair_call (the_field sub ''submission_id'') (the_field sub ''user_id'')
       (the_field sub ''actual_pull_up_count'')"

text \<open>The answers the backend gave to a call in a trace.\<close>

definition responses_to :: "remote_call \<Rightarrow> event list \<Rightarrow> response list" where
  "responses_to c tr = concat (map (\<lambda>ev. case ev of Call c' r \<Rightarrow> if c' = c then [r] else [] | _ \<Rightarrow> []) tr)"

text \<open>What \<open>fix_missing_earnings\<close> reads in the reply of a repair: \<open>result.data and result.data.get("success")\<close>.\<close>

definition reports_success :: "pyval \<Rightarrow> bool" where
  "reports_success d =
     (truthy d \<and> (case dict_get d (PStr ''success'') PNone of Inl _ \<Rightarrow> False | Inr v \<Rightarrow> truthy v))"

text \<open>The value of \<open>if result.data: return result.data; return []\<close>.\<close>

definition or_empty :: "pyval \<Rightarrow> pyval" where
  "or_empty d = (if truthy d then d else PList [])"

definition missing_rpc :: remote_call where
  "missing_rpc = Rpc ''get_submissions_missing_earnings'' []"

definition payout_rpc :: remote_call where
  "payout_rpc = Rpc ''get_payout_mismatches'' []"

definition pool_rpc :: remote_call where
  "pool_rpc = Rpc ''get_pool_balance_issues'' []"

section \<open>Reasoning about programs\<close>

subsection \<open>Outcome and state after each construct\<close>

lemma wp_return [simp]: "wp (return x) Q s = Q (Val x) s"
  by (simp add: wp_def return_def)

lemma wp_sys_exit [simp]: "wp (sys_exit c) Q s = Q (Exit c) s"
  by (simp add: wp_def sys_exit_def)

lemma wp_lift [simp]:
  "wp (lift r) Q s = (case r of Inl ex \<Rightarrow> Q (Exc ex) s | Inr x \<Rightarrow> Q (Val x) s)"
  by (simp add: wp_def lift_def split: sum.split)

lemma wp_bind [simp]:
  "wp (bind m f) Q s =
     wp m (\<lambda>r s'. case r of Val x \<Rightarrow> wp (f x) Q s' | Exc ex \<Rightarrow> Q (Exc ex) s'
                   | Exit c \<Rightarrow> Q (Exit c) s') s"
  by (simp add: wp_def bind_def split: prod.split outcome.split)

lemma wp_seq [simp]:
  "wp (seq m k) Q s =
     wp m (\<lambda>r s'. case r of Val x \<Rightarrow> wp k Q s' | Exc ex \<Rightarrow> Q (Exc ex) s'
                   | Exit c \<Rightarrow> Q (Exit c) s') s"
  by (simp add: seq_def)

lemma wp_gets [simp]: "wp (gets f) Q s = Q (Val (f (fst s))) s"
  by (simp add: wp_def gets_def)

lemma wp_modify [simp]: "wp (modify f) Q s = Q (Val ()) (f (fst s), snd s)"
  by (simp add: wp_def modify_def)

lemma wp_print [simp]:
  "wp (print str) Q s = Q (Val ()) (fst s, (snd s)\<lparr>trace := trace (snd s) @ [Print str]\<rparr>)"
  by (simp add: wp_def print_def)

lemma wp_execute [simp]:
  "wp (execute e c) Q s =
     (case backend e (calls_of (trace (snd s))) c of
        Raised msg \<Rightarrow>
          Q (Exc (RemoteError msg))
            (fst s, (snd s)\<lparr>trace := trace (snd s) @ [Call c (Raised msg)]\<rparr>)
      | Returned rep \<Rightarrow>
          Q (Val rep) (fst s, (snd s)\<lparr>trace := trace (snd s) @ [Call c (Returned rep)]\<rparr>))"
  by (simp add: wp_def execute_def Let_def answer_def split: response.split)

lemma wp_utcnow [simp]:
  "wp (utcnow e) Q s =
     Q (Val (clock e (ticks (snd s)))) (fst s, (snd s)\<lparr>ticks := Suc (ticks (snd s))\<rparr>)"
  by (simp add: wp_def utcnow_def)

lemma wp_try_except [simp]:
  "wp (try_except m h) Q s =
     wp m (\<lambda>r s'. case r of Val x \<Rightarrow> Q (Val x) s' | Exc ex \<Rightarrow> wp (h ex) Q s'
                   | Exit c \<Rightarrow> Q (Exit c) s') s"
  by (simp add: wp_def try_except_def split: prod.split outcome.split)

lemma wp_call [simp]:
  "wp (call l0 m) Q s = wp m (\<lambda>r s'. Q r (fst s, snd s')) (l0, snd s)"
  by (simp add: wp_def call_def split: prod.split)

text \<open>
  With these congruence rules the simplifier decides how a step ended before it looks at
  what follows it, as an evaluation does.
\<close>

lemmas case_congs = outcome.case_cong_weak response.case_cong_weak sum.case_cong_weak

lemma wp_mono: "wp m Q s \<Longrightarrow> (\<And>r s'. Q r s' \<Longrightarrow> Q' r s') \<Longrightarrow> wp m Q' s"
  by (simp add: wp_def)

lemma wp_foreach:
  assumes "I s"
    and "\<And>x s. x \<in> set xs \<Longrightarrow> I s \<Longrightarrow>
           wp (body x) (\<lambda>r s'. case r of Val _ \<Rightarrow> I s' | Exc ex \<Rightarrow> Q (Exc ex) s'
                              | Exit c \<Rightarrow> Q (Exit c) s') s"
    and "\<And>s. I s \<Longrightarrow> Q (Val ()) s"
  shows "wp (foreach xs body) Q s"
  using assms
proof (induction xs arbitrary: s)
  case Nil
  then show ?case by simp
next
  case (Cons x xs)
  have step: "wp (body x) (\<lambda>r s'. case r of Val _ \<Rightarrow> I s' | Exc ex \<Rightarrow> Q (Exc ex) s'
                                  | Exit c \<Rightarrow> Q (Exit c) s') s"
    using Cons.prems by simp
  have rest: "wp (foreach xs body) Q s'" if "I s'" for s'
    using that Cons.prems by (intro Cons.IH) auto
  show ?case
    using step by (simp, elim wp_mono) (simp add: rest split: outcome.splits)
qed

text \<open>A step that ends with a value and establishes \<open>I\<close>, followed by the rest.\<close>

lemma wp_seq_val:
  assumes "wp m (\<lambda>r s'. r = Val () \<and> I s') s"
    and "\<And>s'. I s' \<Longrightarrow> wp k Q s'"
  shows "wp (seq m k) Q s"
  using assms(1) by (simp, elim wp_mono) (auto simp: assms(2))

lemma is_val_unit [simp]: "is_val (r :: unit outcome) = (r = Val ())"
  by (cases r) (simp_all add: is_val_def)

lemma is_val_simps [simp]:
  "is_val (Val x)" "\<not> is_val (Exc ex)" "\<not> is_val (Exit c)"
  by (simp_all add: is_val_def)

lemma is_exit_simps [simp]:
  "\<not> is_exit (Val x)" "\<not> is_exit (Exc ex)" "is_exit (Exit c)"
  by (simp_all add: is_exit_def)

lemma keepsD: "keeps I m \<Longrightarrow> I s \<Longrightarrow> I (snd (m s))"
  unfolding keeps_def by blast

lemma returnsD: "returns m \<Longrightarrow> is_val (fst (m s))"
  unfolding returns_def by blast

lemma no_exitD: "no_exit m \<Longrightarrow> \<not> is_exit (fst (m s))"
  unfolding no_exit_def by blast

lemma wp_keeps_returns:
  assumes "keeps I m" and "returns m" and "I s"
  shows "wp m (\<lambda>r s'. is_val r \<and> I s') s"
  using keepsD [OF assms(1,3)] returnsD [OF assms(2)] by (simp add: wp_def)

subsection \<open>Invariants\<close>

named_theorems keeps_intros

lemma keeps_const [simp]: "keeps (\<lambda>s. C) m"
  by (simp add: keeps_def)

lemma keeps_return [keeps_intros]: "keeps I (return x)"
  by (simp add: keeps_def return_def)

lemma keeps_sys_exit [keeps_intros]: "keeps I (sys_exit c)"
  by (simp add: keeps_def sys_exit_def)

lemma keeps_lift [keeps_intros]: "keeps I (lift r)"
  by (simp add: keeps_def lift_def)

lemma keeps_gets [keeps_intros]: "keeps I (gets f)"
  by (simp add: keeps_def gets_def)

lemma keeps_bind [keeps_intros]:
  assumes "keeps I m" and "\<And>x. keeps I (f x)"
  shows "keeps I (bind m f)"
  unfolding keeps_def
proof (intro allI impI)
  fix s
  assume "I s"
  obtain r s' where ms: "m s = (r, s')"
    by (cases "m s")
  have s': "I s'"
    using keepsD [OF assms(1) \<open>I s\<close>] by (simp add: ms)
  show "I (snd (bind m f s))"
  proof (cases r)
    case (Val x)
    then show ?thesis
      using keepsD [OF assms(2) s', of x] by (simp add: bind_def ms)
  qed (simp_all add: bind_def ms s')
qed

lemma keeps_seq [keeps_intros]: "keeps I m \<Longrightarrow> keeps I k \<Longrightarrow> keeps I (seq m k)"
  by (simp add: seq_def keeps_bind)

lemma keeps_try_except [keeps_intros]:
  assumes "keeps I m" and "\<And>ex. keeps I (h ex)"
  shows "keeps I (try_except m h)"
  unfolding keeps_def
proof (intro allI impI)
  fix s
  assume "I s"
  obtain r s' where ms: "m s = (r, s')"
    by (cases "m s")
  have s': "I s'"
    using keepsD [OF assms(1) \<open>I s\<close>] by (simp add: ms)
  show "I (snd (try_except m h s))"
  proof (cases r)
    case (Exc ex)
    then show ?thesis
      using keepsD [OF assms(2) s', of ex] by (simp add: try_except_def ms)
  qed (simp_all add: try_except_def ms s')
qed

lemma keeps_if [keeps_intros]:
  "(b \<Longrightarrow> keeps I m) \<Longrightarrow> (\<not> b \<Longrightarrow> keeps I n) \<Longrightarrow> keeps I (if b then m else n)"
  by simp

lemma keeps_foreach [keeps_intros]:
  "(\<And>x. keeps I (body x)) \<Longrightarrow> keeps I (foreach xs body)"
  by (induction xs) (simp_all add: keeps_return keeps_seq)

lemma keeps_call:
  assumes "\<And>l. keeps (\<lambda>s. I (l, snd s)) m"
  shows "keeps I (call l0 m)"
  unfolding keeps_def
proof (intro allI impI)
  fix s
  assume "I s"
  then have "I (fst s, snd (l0, snd s))"
    by simp
  then have "I (fst s, snd (snd (m (l0, snd s))))"
    by (rule keepsD [OF assms, of "fst s" "(l0, snd s)"])
  then show "I (snd (call l0 m s))"
    by (cases "m (l0, snd s)") (simp add: call_def)
qed

lemma keeps_modify:
  "(\<And>l w. I (l, w) \<Longrightarrow> I (f l, w)) \<Longrightarrow> keeps I (modify f)"
  by (simp add: keeps_def modify_def)

lemma keeps_print:
  "(\<And>l w. I (l, w) \<Longrightarrow> I (l, w\<lparr>trace := trace w @ [Print str]\<rparr>)) \<Longrightarrow> keeps I (print str)"
  by (simp add: keeps_def print_def)

lemma keeps_execute:
  "(\<And>l w r. I (l, w) \<Longrightarrow> I (l, w\<lparr>trace := trace w @ [Call c r]\<rparr>)) \<Longrightarrow> keeps I (execute e c)"
  by (simp add: keeps_def execute_def Let_def)

lemma keeps_utcnow:
  "(\<And>l w. I (l, w) \<Longrightarrow> I (l, w\<lparr>ticks := Suc (ticks w)\<rparr>)) \<Longrightarrow> keeps I (utcnow e)"
  by (simp add: keeps_def utcnow_def)

text \<open>Invariants of the world alone, and of the local variables alone.\<close>

lemma on_world_simp [simp]: "on_world W (l, w) = W w"
  by (simp add: on_world_def)

lemma on_locals_simp [simp]: "on_locals L (l, w) = L l"
  by (simp add: on_locals_def)

lemma world_call [keeps_intros]:
  "keeps (on_world W) m \<Longrightarrow> keeps (on_world W) (call l0 m)"
  by (rule keeps_call) (simp add: on_world_def keeps_def)

lemma world_modify [keeps_intros]: "keeps (on_world W) (modify f)"
  by (rule keeps_modify) simp

lemma world_print:
  "(\<And>w. W w \<Longrightarrow> W (w\<lparr>trace := trace w @ [Print str]\<rparr>)) \<Longrightarrow> keeps (on_world W) (print str)"
  by (rule keeps_print) simp

lemma world_execute:
  "(\<And>w r. W w \<Longrightarrow> W (w\<lparr>trace := trace w @ [Call c r]\<rparr>)) \<Longrightarrow> keeps (on_world W) (execute e c)"
  by (rule keeps_execute) simp

lemma world_utcnow:
  "(\<And>w. W w \<Longrightarrow> W (w\<lparr>ticks := Suc (ticks w)\<rparr>)) \<Longrightarrow> keeps (on_world W) (utcnow e)"
  by (rule keeps_utcnow) simp

lemma locals_call [keeps_intros]: "keeps (on_locals L) (call l0 m)"
  by (rule keeps_call) (simp add: on_locals_def keeps_def)

lemma locals_print [keeps_intros]: "keeps (on_locals L) (print str)"
  by (rule keeps_print) simp

lemma locals_execute [keeps_intros]: "keeps (on_locals L) (execute e c)"
  by (rule keeps_execute) simp

lemma locals_utcnow [keeps_intros]: "keeps (on_locals L) (utcnow e)"
  by (rule keeps_utcnow) simp

lemma locals_modify:
  "(\<And>l. L l \<Longrightarrow> L (f l)) \<Longrightarrow> keeps (on_locals L) (modify f)"
  by (rule keeps_modify) simp

subsection \<open>Programs that end with a value\<close>

named_theorems ends_intros

lemma no_exit_returns: "returns m \<Longrightarrow> no_exit m"
  unfolding returns_def no_exit_def is_val_def is_exit_def
  by (auto split: outcome.splits)

lemma returns_return [ends_intros]: "returns (return x)"
  by (simp add: returns_def return_def)

lemma returns_gets [ends_intros]: "returns (gets f)"
  by (simp add: returns_def gets_def)

lemma returns_modify [ends_intros]: "returns (modify f)"
  by (simp add: returns_def modify_def)

lemma returns_print [ends_intros]: "returns (print str)"
  by (simp add: returns_def print_def)

lemma returns_utcnow [ends_intros]: "returns (utcnow e)"
  by (simp add: returns_def utcnow_def)

lemma returns_bind [ends_intros]:
  assumes "returns m" and "\<And>x. returns (f x)"
  shows "returns (bind m f)"
  unfolding returns_def
proof
  fix s
  obtain r s' where ms: "m s = (r, s')"
    by (cases "m s")
  show "is_val (fst (bind m f s))"
  proof (cases r)
    case (Val x)
    then show ?thesis
      using returnsD [OF assms(2), of x s'] by (simp add: bind_def ms)
  qed (use returnsD [OF assms(1), of s] in \<open>simp_all add: ms\<close>)
qed

lemma returns_seq [ends_intros]: "returns m \<Longrightarrow> returns k \<Longrightarrow> returns (seq m k)"
  by (simp add: seq_def returns_bind)

lemma returns_try_except [ends_intros]:
  assumes "no_exit m" and "\<And>ex. returns (h ex)"
  shows "returns (try_except m h)"
  unfolding returns_def
proof
  fix s
  obtain r s' where ms: "m s = (r, s')"
    by (cases "m s")
  show "is_val (fst (try_except m h s))"
  proof (cases r)
    case (Exc ex)
    then show ?thesis
      using returnsD [OF assms(2), of ex s'] by (simp add: try_except_def ms)
  qed (use no_exitD [OF assms(1), of s] in \<open>simp_all add: try_except_def ms\<close>)
qed

lemma returns_if [ends_intros]:
  "(b \<Longrightarrow> returns m) \<Longrightarrow> (\<not> b \<Longrightarrow> returns n) \<Longrightarrow> returns (if b then m else n)"
  by simp

lemma returns_foreach [ends_intros]:
  "(\<And>x. returns (body x)) \<Longrightarrow> returns (foreach xs body)"
  by (induction xs) (simp_all add: returns_return returns_seq)

lemma returns_call [ends_intros]:
  assumes "returns m"
  shows "returns (call l0 m :: ('l, 'a) prog)"
  unfolding returns_def
proof
  fix s :: "'l \<times> world"
  show "is_val (fst (call l0 m s))"
    using returnsD [OF assms, of "(l0, snd s)"] by (cases "m (l0, snd s)") (simp add: call_def)
qed

lemma no_exit_return [ends_intros]: "no_exit (return x)"
  by (simp add: no_exit_def return_def)

lemma no_exit_lift [ends_intros]: "no_exit (lift r)"
  by (simp add: no_exit_def lift_def split: sum.splits)

lemma no_exit_gets [ends_intros]: "no_exit (gets f)"
  by (simp add: no_exit_def gets_def)

lemma no_exit_modify [ends_intros]: "no_exit (modify f)"
  by (simp add: no_exit_def modify_def)

lemma no_exit_print [ends_intros]: "no_exit (print str)"
  by (simp add: no_exit_def print_def)

lemma no_exit_utcnow [ends_intros]: "no_exit (utcnow e)"
  by (simp add: no_exit_def utcnow_def)

lemma no_exit_execute [ends_intros]: "no_exit (execute e c)"
  by (simp add: no_exit_def execute_def Let_def answer_def split: response.splits)

lemma no_exit_bind [ends_intros]:
  assumes "no_exit m" and "\<And>x. no_exit (f x)"
  shows "no_exit (bind m f)"
  unfolding no_exit_def
proof
  fix s
  obtain r s' where ms: "m s = (r, s')"
    by (cases "m s")
  show "\<not> is_exit (fst (bind m f s))"
  proof (cases r)
    case (Val x)
    then show ?thesis
      using no_exitD [OF assms(2), of x s'] by (simp add: bind_def ms)
  qed (use no_exitD [OF assms(1), of s] in \<open>simp_all add: bind_def ms\<close>)
qed

lemma no_exit_seq [ends_intros]: "no_exit m \<Longrightarrow> no_exit k \<Longrightarrow> no_exit (seq m k)"
  by (simp add: seq_def no_exit_bind)

lemma no_exit_try_except [ends_intros]:
  assumes "no_exit m" and "\<And>ex. no_exit (h ex)"
  shows "no_exit (try_except m h)"
  unfolding no_exit_def
proof
  fix s
  obtain r s' where ms: "m s = (r, s')"
    by (cases "m s")
  show "\<not> is_exit (fst (try_except m h s))"
  proof (cases r)
    case (Exc ex)
    then show ?thesis
      using no_exitD [OF assms(2), of ex s'] by (simp add: try_except_def ms)
  qed (use no_exitD [OF assms(1), of s] in \<open>simp_all add: try_except_def ms\<close>)
qed

lemma no_exit_if [ends_intros]:
  "(b \<Longrightarrow> no_exit m) \<Longrightarrow> (\<not> b \<Longrightarrow> no_exit n) \<Longrightarrow> no_exit (if b then m else n)"
  by simp

lemma no_exit_foreach [ends_intros]:
  "(\<And>x. no_exit (body x)) \<Longrightarrow> no_exit (foreach xs body)"
  by (induction xs) (simp_all add: no_exit_return no_exit_seq)

lemma no_exit_call [ends_intros]:
  assumes "no_exit m"
  shows "no_exit (call l0 m :: ('l, 'a) prog)"
  unfolding no_exit_def
proof
  fix s :: "'l \<times> world"
  show "\<not> is_exit (fst (call l0 m s))"
    using no_exitD [OF assms, of "(l0, snd s)"] by (cases "m (l0, snd s)") (simp add: call_def)
qed

subsection \<open>Frames\<close>

lemma wp_conj: "wp m Q1 s \<Longrightarrow> wp m Q2 s \<Longrightarrow> wp m (\<lambda>r s'. Q1 r s' \<and> Q2 r s') s"
  by (simp add: wp_def)

lemma keeps_wp: "keeps I m \<Longrightarrow> I s \<Longrightarrow> wp m (\<lambda>r s'. I s') s"
  by (simp add: wp_def keepsD)

lemma wp_frame:
  assumes "keeps (on_world W) m" and "no_exit m" and "W (snd s)"
  shows "wp m (\<lambda>r s'. \<not> is_exit r \<and> W (snd s')) s"
  using keepsD [OF assms(1), of s] no_exitD [OF assms(2), of s] assms(3)
  by (simp add: wp_def on_world_def)

lemma wp_call_locals: "wp (call l0 m) (\<lambda>r s'. fst s' = fst s) s"
  by (cases "m (l0, snd s)") (simp add: wp_def call_def)

lemma keeps_on_values:
  assumes "\<And>X. keeps (on_world (\<lambda>w. f w = X)) (m :: ('l, 'a) prog)"
  shows "keeps (on_world (\<lambda>w. P (f w))) m"
  unfolding keeps_def
proof (intro allI impI)
  fix s :: "'l \<times> world"
  assume "on_world (\<lambda>w. P (f w)) s"
  moreover have "f (snd (snd (m s))) = f (snd s)"
    using keepsD [OF assms [of "f (snd s)"], of s] by (simp add: on_world_def)
  ultimately show "on_world (\<lambda>w. P (f w)) (snd (m s))"
    by (simp add: on_world_def)
qed

lemma responses_to_simps [simp]:
  "responses_to c (xs @ ys) = responses_to c xs @ responses_to c ys"
  "responses_to c [] = []"
  "responses_to c (Print str # xs) = responses_to c xs"
  "responses_to c (Call c' r # xs) = (if c' = c then r # responses_to c xs else responses_to c xs)"
  by (simp_all add: responses_to_def)

lemma responses_to_mem: "Call c r \<in> set tr \<longleftrightarrow> r \<in> set (responses_to c tr)"
  by (induction tr) (auto simp: responses_to_def split: event.splits)

section \<open>Dry runs\<close>

lemma calls_of_append [simp]: "calls_of (xs @ ys) = calls_of xs @ calls_of ys"
  by (induction xs rule: calls_of.induct) auto

lemma read_only_simps [simp]:
  "read_only (xs @ ys) = (read_only xs \<and> read_only ys)"
  "read_only [] = True"
  "read_only (Print str # xs) = read_only xs"
  "read_only (Call c r # xs) = (\<not> mutating c \<and> read_only xs)"
  by (auto simp: read_only_def)

lemmas consistency_defs =
  consistency_main_def consistency_header_def get_client_def check_1_def check_2_def check_3_def
  summary_def check_missing_earnings_def check_payout_mismatches_def check_pool_balance_issues_def
  fix_missing_earnings_def fix_missing_earnings_step_def fix_payout_mismatches_def
  fix_payout_mismatches_step_def log_check_result_def set_detail_def print_pool_issue_def

lemmas health_defs =
  health_main_def health_header_def get_client_def health_checks_def health_log_def
  run_sql_health_check_def report_sql_data_def print_balance_fix_def print_payout_issue_def
  check_email_queue_health_def count_email_def check_monthly_graphics_def print_missing_user_def
  check_edge_function_health_def generate_summary_report_def print_issue_def set_result_def

lemmas call_defs =
  pending_select_def stuck_select_def graphics_rpc_def graphic_emails_select_def
  approved_select_def earnings_select_def repair_call_def payout_update_def log_insert_def
  health_insert_def

lemmas sample_defs =
  dry_config_def live_config_def sample_env_def sample_backend_def sample_clock_def
  sample_missing_def sample_mismatches_def sample_sub1_def sample_sub2_def sample_mismatch_def
  repair_call_def

lemma consistency_run_wp:
  "wp (consistency_main cfg e) (\<lambda>r s'. P (r, s'))
      (\<lparr>total_issues = 0, total_fixed = 0, details = []\<rparr>, world0)
   \<Longrightarrow> P (consistency_run cfg e)"
  by (simp add: wp_def consistency_run_def)

lemma health_run_wp:
  "wp (health_main cfg e) (\<lambda>r s'. P (r, s')) (\<lparr>results = [], status = None\<rparr>, world0)
   \<Longrightarrow> P (health_run cfg e)"
  by (simp add: wp_def health_run_def)

lemma consistency_read_only:
  assumes "dry_run cfg"
  shows "keeps (on_world (\<lambda>w. read_only (trace w))) (consistency_main cfg e)"
  unfolding consistency_defs
  by (intro keeps_intros world_print world_execute world_utcnow; simp add: assms)

lemma health_read_only:
  assumes "dry_run cfg"
  shows "keeps (on_world (\<lambda>w. read_only (trace w))) (health_main cfg e)"
  unfolding health_defs
  by (intro keeps_intros world_print world_execute world_utcnow; simp add: assms call_defs)

lemma consistency_total_fixed:
  assumes "dry_run cfg"
  shows "keeps (on_locals (\<lambda>l. total_fixed l = 0)) (consistency_main cfg e)"
  unfolding consistency_defs
  by (intro keeps_intros locals_modify; simp add: assms)

lemma checks_return:
  "returns (consistency_header cfg e :: (main_locals, unit) prog)" "returns (check_1 cfg e)" "returns (check_2 cfg e)" "returns (check_3 e)"
  unfolding consistency_defs
  by (intro ends_intros)+

lemma checks_total_fixed:
  assumes "dry_run cfg"
  shows "keeps (on_locals (\<lambda>l. total_fixed l = 0)) (consistency_header cfg e)"
    "keeps (on_locals (\<lambda>l. total_fixed l = 0)) (check_1 cfg e)"
    "keeps (on_locals (\<lambda>l. total_fixed l = 0)) (check_2 cfg e)"
    "keeps (on_locals (\<lambda>l. total_fixed l = 0)) (check_3 e)"
  unfolding consistency_defs
  by (intro keeps_intros locals_modify; simp add: assms)+

lemma show_nat_0 [simp]: "show_nat 0 = ''0''"
  by (simp add: show_nat.simps digit_char_def)

lemma summary_dry_run:
  assumes "dry_run cfg" and "total_fixed l = 0"
  shows "wp (summary cfg e) (\<lambda>r s'. Print ''Total issues fixed: 0'' \<in> set (trace (snd s'))) (l, w)"
  unfolding summary_def using assms by simp

lemma consistency_reports_zero:
  assumes "dry_run cfg" and "supabase_key cfg \<noteq> []"
  shows "Print ''Total issues fixed: 0'' \<in> set (run_trace (consistency_run cfg e))"
proof -
  let ?I = "on_locals (\<lambda>l. total_fixed l = 0) :: main_locals \<times> world \<Rightarrow> bool"
  let ?Q = "\<lambda>(r :: int outcome) (s' :: main_locals \<times> world). Print ''Total issues fixed: 0'' \<in> set (trace (snd s'))"
  have step: "wp m (\<lambda>r s'. r = Val () \<and> ?I s') s" if "keeps ?I m" "returns m" "?I s" for m s
    using wp_keeps_returns [OF that] by simp
  have last: "wp (summary cfg e) ?Q s" if "?I s" for s
    using summary_dry_run [OF assms(1), of "fst s" e "snd s"] that by (simp add: on_locals_def)
  have "wp (consistency_main cfg e) ?Q (\<lparr>total_issues = 0, total_fixed = 0, details = []\<rparr>, world0)"
    unfolding consistency_main_def
    apply (rule wp_seq_val [where I = ?I])
     apply (rule step [OF checks_total_fixed(1) [OF assms(1)] checks_return(1)], simp)
    apply (rule wp_seq_val [where I = ?I])
     apply (simp add: get_client_def assms(2))
    apply (rule wp_seq_val [where I = ?I])
     apply (rule step [OF checks_total_fixed(2) [OF assms(1)] checks_return(2)], assumption)
    apply (rule wp_seq_val [where I = ?I])
     apply (rule step [OF checks_total_fixed(3) [OF assms(1)] checks_return(3)], assumption)
    apply (rule wp_seq_val [where I = ?I])
     apply (rule step [OF checks_total_fixed(4) [OF assms(1)] checks_return(4)], assumption)
    apply (erule last)
    done
  then show ?thesis
    by (simp add: wp_def run_trace_def consistency_run_def)
qed

text \<open>
  C3. In a dry run neither script issues a mutating call (no earnings repair, no update
  of a payout request, no insert into a monitoring table), the consistency checker ends
  with \<open>total_fixed = 0\<close>, and, when it gets as far as its summary, the total it
  prints is 0, whatever the reports return.
\<close>

theorem dry_run_changes_nothing:
  assumes "dry_run cfg"
  shows "read_only (run_trace (consistency_run cfg e))
       \<and> read_only (run_trace (health_run cfg e))
       \<and> total_fixed (run_locals (consistency_run cfg e)) = 0
       \<and> (supabase_key cfg \<noteq> [] \<longrightarrow>
            Print ''Total issues fixed: 0'' \<in> set (run_trace (consistency_run cfg e)))"
proof -
  have "read_only (run_trace (consistency_run cfg e))"
    using keepsD [OF consistency_read_only [OF assms], of "(\<lparr>total_issues = 0, total_fixed = 0, details = []\<rparr>, world0)" e]
    by (simp add: on_world_def run_trace_def consistency_run_def world0_def)
  moreover have "read_only (run_trace (health_run cfg e))"
    using keepsD [OF health_read_only [OF assms], of "(\<lparr>results = [], status = None\<rparr>, world0)" e]
    by (simp add: on_world_def run_trace_def health_run_def world0_def)
  moreover have "total_fixed (run_locals (consistency_run cfg e)) = 0"
    using keepsD [OF consistency_total_fixed [OF assms], of "(\<lparr>total_issues = 0, total_fixed = 0, details = []\<rparr>, world0)" e]
    by (simp add: on_locals_def run_locals_def consistency_run_def)
  ultimately show ?thesis
    using consistency_reports_zero [OF assms] by blast
qed

theorem dry_run_changes_nothing_witness:
  "dry_run dry_config
   \<and> calls_of (run_trace (consistency_run dry_config sample_env)) =
       [Rpc ''get_submissions_missing_earnings'' [], Rpc ''get_payout_mismatches'' [],
        Rpc ''get_pool_balance_issues'' []]
   \<and> total_issues (run_locals (consistency_run dry_config sample_env)) = 3
   \<and> read_only (run_trace (consistency_run dry_config sample_env))
   \<and> read_only (run_trace (health_run dry_config sample_env))
   \<and> total_fixed (run_locals (consistency_run dry_config sample_env)) = 0
   \<and> Print ''Total issues fixed: 0'' \<in> set (run_trace (consistency_run dry_config sample_env))"
proof -
  have "calls_of (run_trace (consistency_run dry_config sample_env)) =
          [Rpc ''get_submissions_missing_earnings'' [], Rpc ''get_payout_mismatches'' [],
           Rpc ''get_pool_balance_issues'' []]
        \<and> total_issues (run_locals (consistency_run dry_config sample_env)) = 3"
    by (rule consistency_run_wp)
       (simp add: consistency_defs sample_defs world0_def run_trace_def run_locals_def
                  truthy_def py_len_def cong: case_congs)
  then show ?thesis
    using dry_run_changes_nothing [of dry_config sample_env] by (simp add: dry_config_def)
qed

section \<open>The repairs\<close>

lemma updates_returned_append [simp]:
  "updates_returned (xs @ ys) = updates_returned xs + updates_returned ys"
  by (induction xs rule: updates_returned.induct) simp_all

lemma updates_raised_append [simp]:
  "updates_raised (xs @ ys) = updates_raised xs + updates_raised ys"
  by (induction xs rule: updates_raised.induct) simp_all

lemma has_keyD: "has_key v k \<Longrightarrow> subscript v k = Inr (the_field v k)"
  by (simp add: has_key_def the_field_def split: sum.splits)

lemma fix_payout_step:
  assumes "has_keys m mismatch_keys"
  shows "wp (fix_payout_mismatches_step e m)
           (\<lambda>r s'. r = Val ()
              \<and> fixed (fst s') + failed (fst s') = Suc (fixed l + failed l)
              \<and> updates_returned (trace (snd s')) + fixed l = updates_returned (trace w) + fixed (fst s')
              \<and> updates_raised (trace (snd s')) + failed l = updates_raised (trace w) + failed (fst s'))
           (l, w)"
proof -
  have k: "subscript m ''payout_id'' = Inr (the_field m ''payout_id'')"
    "subscript m ''full_name'' = Inr (the_field m ''full_name'')"
    "subscript m ''current_amount'' = Inr (the_field m ''current_amount'')"
    "subscript m ''correct_amount'' = Inr (the_field m ''correct_amount'')"
    using assms by (simp_all add: has_keys_def mismatch_keys_def has_keyD)
  show ?thesis
    unfolding fix_payout_mismatches_step_def
    by (simp add: k payout_update_def split: response.splits)
qed

lemma fix_payout_loop:
  assumes "\<forall>m \<in> set ms. has_keys m mismatch_keys"
  shows "wp (foreach ms (fix_payout_mismatches_step e))
           (\<lambda>r s'. r = Val ()
              \<and> fixed (fst s') + failed (fst s') = fixed l + failed l + length ms
              \<and> updates_returned (trace (snd s')) + fixed l = updates_returned (trace w) + fixed (fst s')
              \<and> updates_raised (trace (snd s')) + failed l = updates_raised (trace w) + failed (fst s'))
           (l, w)"
  using assms
proof (induction ms arbitrary: l w)
  case Nil
  then show ?case by simp
next
  case (Cons m ms)
  have m: "has_keys m mismatch_keys" and ms: "\<forall>m \<in> set ms. has_keys m mismatch_keys"
    using Cons.prems by simp_all
  show ?case
    apply simp
    apply (rule wp_mono [OF fix_payout_step [OF m]])
    apply (clarsimp)
    apply (rule wp_mono [OF Cons.IH [OF ms]])
    apply (clarsimp)
    done
qed

lemma wp_result: "wp m Q s \<Longrightarrow> \<exists>r s'. m s = (r, s') \<and> Q r s'"
  by (cases "m s") (simp add: wp_def)

lemma repairs_of_simps [simp]:
  "repairs_of (xs @ ys) = repairs_of xs @ repairs_of ys"
  "repairs_of [] = []"
  "repairs_of (Print str # xs) = repairs_of xs"
  "repairs_of (Call c r # xs) = (if is_repair c then c # repairs_of xs else repairs_of xs)"
  by (simp_all add: repairs_of_def)

lemma is_repair_simps [simp]:
  "is_repair (repair_call a b c)"
  "is_repair (Rpc n args) = (n = ''process_submission_earnings'')"
  "\<not> is_repair (Select t cols k fs)"
  "\<not> is_repair (Update t p fs)"
  "\<not> is_repair (Insert t q)"
  by (simp_all add: is_repair_def repair_call_def)

lemma dict_get_twice:
  "dict_get d (PStr k) a = Inr v \<Longrightarrow> dict_get d (PStr k') b = Inl ex \<Longrightarrow> False"
  by (cases d) (simp_all add: dict_get_def hashable_def)

lemma fix_missing_step:
  assumes "has_keys sub missing_keys"
  shows "wp (fix_missing_earnings_step e sub)
           (\<lambda>r s'. r = Val ()
              \<and> fixed (fst s') + failed (fst s') = Suc (fixed l + failed l)
              \<and> repairs_of (trace (snd s')) = repairs_of (trace w) @ [repair_of sub]
              \<and> (case backend e (calls_of (trace w)) (repair_of sub) of
                    Returned rep \<Rightarrow> fixed (fst s') = (if reports_success (data rep) then Suc (fixed l) else fixed l)
                  | Raised msg \<Rightarrow> fixed (fst s') = fixed l))
           (l, w)"
proof -
  have k: "subscript sub ''submission_id'' = Inr (the_field sub ''submission_id'')"
    "subscript sub ''user_id'' = Inr (the_field sub ''user_id'')"
    "subscript sub ''actual_pull_up_count'' = Inr (the_field sub ''actual_pull_up_count'')"
    "subscript sub ''full_name'' = Inr (the_field sub ''full_name'')"
    using assms by (simp_all add: has_keys_def missing_keys_def has_keyD)
  show ?thesis
    unfolding fix_missing_earnings_step_def
    by (simp add: k repair_of_def reports_success_def split: response.splits sum.splits)
       (auto dest: dict_get_twice)
qed

lemma fix_missing_loop:
  assumes "\<forall>sub \<in> set subs. has_keys sub missing_keys"
  shows "wp (foreach subs (fix_missing_earnings_step e))
           (\<lambda>r s'. r = Val ()
              \<and> fixed (fst s') + failed (fst s') = fixed l + failed l + length subs
              \<and> repairs_of (trace (snd s')) = repairs_of (trace w) @ map repair_of subs)
           (l, w)"
  using assms
proof (induction subs arbitrary: l w)
  case Nil
  then show ?case by simp
next
  case (Cons sub subs)
  have sub: "has_keys sub missing_keys" and subs: "\<forall>x \<in> set subs. has_keys x missing_keys"
    using Cons.prems by simp_all
  show ?case
    apply simp
    apply (rule wp_mono [OF fix_missing_step [OF sub]])
    apply clarsimp
    apply (rule wp_mono [OF Cons.IH [OF subs]])
    apply clarsimp
    done
qed

text \<open>What \<open>fix_missing_earnings\<close> does on records of the expected shape.\<close>

lemma fix_missing_earnings_shaped:
  assumes "\<forall>sub \<in> set subs. has_keys sub missing_keys"
  shows "wp (fix_missing_earnings e (PList subs))
           (\<lambda>r s'. (\<exists>c. r = Val c \<and> fixed c + failed c = length subs)
              \<and> fst s' = l
              \<and> repairs_of (trace (snd s')) = repairs_of (trace w) @ map repair_of subs)
           (l, w)"
  unfolding fix_missing_earnings_def
  apply (simp add: py_iter_def)
  apply (rule wp_mono [OF fix_missing_loop [OF assms]])
  apply clarsimp
  done

lemma fix_payout_mismatches_shaped:
  assumes "\<forall>m \<in> set ms. has_keys m mismatch_keys"
  shows "wp (fix_payout_mismatches e (PList ms))
           (\<lambda>r s'. (\<exists>c. r = Val c \<and> fixed c + failed c = length ms
                      \<and> updates_returned (trace (snd s')) = updates_returned (trace w) + fixed c
                      \<and> updates_raised (trace (snd s')) = updates_raised (trace w) + failed c)
              \<and> fst s' = l)
           (l, w)"
  unfolding fix_payout_mismatches_def
  apply (simp add: py_iter_def)
  apply (rule wp_mono [OF fix_payout_loop [OF assms]])
  apply clarsimp
  done

text \<open>
  C9. On mismatch records of the expected shape, \<open>fix_payout_mismatches\<close> counts as
  fixed exactly the update calls that returned, whatever they returned, and as failed
  exactly those that raised, so the two counts add up to the number of records.
  \<open>fix_missing_earnings\<close> differs: a repair that returns without a success flag is
  counted as failed.
\<close>

theorem payout_fix_counts_calls_that_return:
  assumes "\<forall>m \<in> set ms. has_keys m mismatch_keys"
  shows "(\<exists>c s'. fix_payout_mismatches e (PList ms) s = (Val c, s')
            \<and> updates_returned (trace (snd s')) = updates_returned (trace (snd s)) + fixed c
            \<and> updates_raised (trace (snd s')) = updates_raised (trace (snd s)) + failed c
            \<and> fixed c + failed c = length ms)
       \<and> (\<forall>sub rep l (w :: world). has_keys sub missing_keys
            \<and> backend e (calls_of (trace w)) (repair_of sub) = Returned rep
            \<and> \<not> reports_success (data rep)
            \<longrightarrow> fst (snd (fix_missing_earnings_step e sub (l, w))) = l\<lparr>failed := failed l + 1\<rparr>)"
proof (intro conjI allI impI)
  show "\<exists>c s'. fix_payout_mismatches e (PList ms) s = (Val c, s')
            \<and> updates_returned (trace (snd s')) = updates_returned (trace (snd s)) + fixed c
            \<and> updates_raised (trace (snd s')) = updates_raised (trace (snd s)) + failed c
            \<and> fixed c + failed c = length ms"
    using wp_result [OF fix_payout_mismatches_shaped [OF assms, where e = e and l = "fst s" and w = "snd s"]]
    by auto
next
  fix sub rep and l :: fix_counts and w :: world
  assume h: "has_keys sub missing_keys
            \<and> backend e (calls_of (trace w)) (repair_of sub) = Returned rep
            \<and> \<not> reports_success (data rep)"
  then have "has_keys sub missing_keys"
    by simp
  from wp_result [OF fix_missing_step [OF this, where e = e and l = l and w = w]] h
  obtain s' where "fix_missing_earnings_step e sub (l, w) = (Val (), s')"
    and "fixed (fst s') + failed (fst s') = Suc (fixed l + failed l)"
    and "fixed (fst s') = fixed l"
    by auto
  then show "fst (snd (fix_missing_earnings_step e sub (l, w))) = l\<lparr>failed := failed l + 1\<rparr>"
    by (cases "fst s'") simp
qed

lemma sample_mismatch_keys: "has_keys sample_mismatch mismatch_keys"
  by (simp add: has_keys_def has_key_def mismatch_keys_def sample_mismatch_def subscript_def
                key_eq_def num_of_def)

theorem payout_fix_counts_calls_that_return_witness:
  "has_keys sample_mismatch mismatch_keys
   \<and> (\<exists>c s'. fix_payout_mismatches sample_env (PList [sample_mismatch]) ((), world0) = (Val c, s')
         \<and> updates_returned (trace (snd s')) = updates_returned (trace (snd ((), world0))) + fixed c
         \<and> updates_raised (trace (snd s')) = updates_raised (trace (snd ((), world0))) + failed c
         \<and> fixed c + failed c = length [sample_mismatch])
   \<and> fst (fix_payout_mismatches sample_env (PList [sample_mismatch]) ((), world0))
       = Val \<lparr>fixed = 1, failed = 0\<rparr>"
proof -
  have "wp (fix_payout_mismatches sample_env (PList [sample_mismatch]))
          (\<lambda>r s'. r = Val \<lparr>fixed = 1, failed = 0\<rparr>) ((), world0)"
    by (simp add: fix_payout_mismatches_def fix_payout_mismatches_step_def py_iter_def
                  sample_defs payout_update_def subscript_def key_eq_def num_of_def world0_def
             cong: case_congs)
  then have "fst (fix_payout_mismatches sample_env (PList [sample_mismatch]) ((), world0))
       = Val \<lparr>fixed = 1, failed = 0\<rparr>"
    by (simp add: wp_def)
  then show ?thesis
    using payout_fix_counts_calls_that_return [of "[sample_mismatch]" sample_env "((), world0)"]
      sample_mismatch_keys
    by simp
qed

text \<open>The repairs leave the record of every other call alone.\<close>

lemma fix_missing_earnings_spec:
  "wp (fix_missing_earnings e d)
     (\<lambda>r s'. \<not> is_exit r \<and> fst s' = l
        \<and> (\<forall>c. \<not> is_repair c \<longrightarrow> responses_to c (trace (snd s')) = responses_to c (trace w))
        \<and> (\<forall>subs. d = PList subs \<and> (\<forall>sub \<in> set subs. has_keys sub missing_keys)
              \<longrightarrow> is_val r \<and> repairs_of (trace (snd s')) = repairs_of (trace w) @ map repair_of subs))
     (l, w)"
proof -
  have k: "keeps (on_world (\<lambda>w'. \<forall>c. \<not> is_repair c \<longrightarrow>
                     responses_to c (trace w') = responses_to c (trace w)))
             (fix_missing_earnings e d :: ('l, fix_counts) prog)"
    unfolding fix_missing_earnings_def fix_missing_earnings_step_def
    by (intro keeps_intros world_print world_execute world_utcnow; auto)
  have n: "no_exit (fix_missing_earnings e d :: ('l, fix_counts) prog)"
    unfolding fix_missing_earnings_def fix_missing_earnings_step_def
    by (intro ends_intros)
  have f: "wp (fix_missing_earnings e d) (\<lambda>r s'. fst s' = fst (l, w)) (l, w)"
    unfolding fix_missing_earnings_def by (rule wp_call_locals)
  have s: "wp (fix_missing_earnings e d)
            (\<lambda>r s'. \<forall>subs. d = PList subs \<and> (\<forall>sub \<in> set subs. has_keys sub missing_keys)
              \<longrightarrow> is_val r \<and> repairs_of (trace (snd s')) = repairs_of (trace w) @ map repair_of subs)
            (l, w)"
  proof (cases "\<exists>subs. d = PList subs \<and> (\<forall>sub \<in> set subs. has_keys sub missing_keys)")
    case True
    then obtain subs where d: "d = PList subs" "\<forall>sub \<in> set subs. has_keys sub missing_keys"
      by blast
    show ?thesis
      unfolding d(1) by (rule wp_mono [OF fix_missing_earnings_shaped [OF d(2)]]) auto
  next
    case False
    then show ?thesis
      by (auto simp: wp_def)
  qed
  from wp_conj [OF wp_conj [OF wp_frame [OF k n] f] s] show ?thesis
    by (auto elim!: wp_mono)
qed

lemma or_empty_simps [simp]:
  "truthy (or_empty d) = truthy d"
  "truthy d \<Longrightarrow> or_empty d = d"
  "\<not> truthy d \<Longrightarrow> or_empty d = PList []"
  by (simp_all add: or_empty_def truthy_def)

lemma truthy_PList [simp]: "truthy (PList xs) = (xs \<noteq> [])"
  by (simp add: truthy_def)

lemma py_len_PList [simp]: "py_len (PList xs) = Inr (length xs)"
  by (simp add: py_len_def)

lemma py_iter_PList [simp]: "py_iter (PList xs) = Inr xs"
  by (simp add: py_iter_def)

lemma wp_check_missing_earnings:
  "wp (check_missing_earnings e) Q s =
     (case backend e (calls_of (trace (snd s))) missing_rpc of
        Raised msg \<Rightarrow>
          Q (Exc (RemoteError msg))
            (fst s, (snd s)\<lparr>trace := trace (snd s) @ [Call missing_rpc (Raised msg)]\<rparr>)
      | Returned rep \<Rightarrow>
          Q (Val (or_empty (data rep)))
            (fst s, (snd s)\<lparr>trace := trace (snd s) @ [Call missing_rpc (Returned rep)]\<rparr>))"
  by (simp add: check_missing_earnings_def missing_rpc_def or_empty_def split: response.splits)

lemma wp_check_payout_mismatches:
  "wp (check_payout_mismatches e) Q s =
     (case backend e (calls_of (trace (snd s))) payout_rpc of
        Raised msg \<Rightarrow>
          Q (Exc (RemoteError msg))
            (fst s, (snd s)\<lparr>trace := trace (snd s) @ [Call payout_rpc (Raised msg)]\<rparr>)
      | Returned rep \<Rightarrow>
          Q (Val (or_empty (data rep)))
            (fst s, (snd s)\<lparr>trace := trace (snd s) @ [Call payout_rpc (Returned rep)]\<rparr>))"
  by (simp add: check_payout_mismatches_def payout_rpc_def or_empty_def split: response.splits)

lemma wp_check_pool_balance_issues:
  "wp (check_pool_balance_issues e) Q s =
     (case backend e (calls_of (trace (snd s))) pool_rpc of
        Raised msg \<Rightarrow>
          Q (Exc (RemoteError msg))
            (fst s, (snd s)\<lparr>trace := trace (snd s) @ [Call pool_rpc (Raised msg)]\<rparr>)
      | Returned rep \<Rightarrow>
          Q (Val (or_empty (data rep)))
            (fst s, (snd s)\<lparr>trace := trace (snd s) @ [Call pool_rpc (Returned rep)]\<rparr>))"
  by (simp add: check_pool_balance_issues_def pool_rpc_def or_empty_def split: response.splits)

lemmas wp_reports = wp_check_missing_earnings wp_check_payout_mismatches wp_check_pool_balance_issues

lemma report_not_repair [simp]:
  "\<not> is_repair missing_rpc" "\<not> is_repair payout_rpc" "\<not> is_repair pool_rpc"
  by (simp_all add: missing_rpc_def payout_rpc_def pool_rpc_def)

lemma check_1_live:
  assumes "\<not> dry_run cfg" and "responses_to missing_rpc (trace w) = []" and "repairs_of (trace w) = []"
  shows "wp (check_1 cfg e)
           (\<lambda>r s'. r = Val () \<and> (\<exists>resp. responses_to missing_rpc (trace (snd s')) = [resp]
               \<and> (\<forall>rep subs. resp = Returned rep \<and> data rep = PList subs
                     \<and> (\<forall>sub \<in> set subs. has_keys sub missing_keys)
                     \<longrightarrow> repairs_of (trace (snd s')) = map repair_of subs)))
           (l, w)"
proof (cases "backend e (calls_of (trace w)) missing_rpc")
  case (Raised msg)
  then show ?thesis
    unfolding check_1_def set_detail_def
    using assms by (simp add: wp_reports)
next
  case (Returned rep)
  show ?thesis
  proof (cases "truthy (data rep)")
    case False
    then show ?thesis
      unfolding check_1_def set_detail_def
      using assms Returned by (auto simp: wp_reports)
  next
    case True
    show ?thesis
      unfolding check_1_def set_detail_def
      using assms Returned True
      apply (simp add: wp_reports split: sum.splits)
      apply (intro conjI allI impI)
       apply auto[1]
      apply (rule wp_mono [OF fix_missing_earnings_spec])
      apply (auto split: outcome.splits)
      done
  qed
qed


lemma no_calls:
  assumes "calls_of tr = []"
  shows "Call c r \<notin> set tr" and "responses_to c tr = []" and "repairs_of tr = []"
  using assms by (induction tr rule: calls_of.induct) (simp_all add: repairs_of_def)

lemma header_no_calls:
  "keeps (on_world (\<lambda>w. calls_of (trace w) = [])) (consistency_header cfg e)"
  unfolding consistency_header_def
  by (intro keeps_intros world_print world_execute world_utcnow; simp)

lemma tail_frame:
  "keeps (on_world (\<lambda>w. (responses_to missing_rpc (trace w), repairs_of (trace w)) = X))
     (seq (check_2 cfg e) (seq (check_3 e) (summary cfg e)))"
  unfolding consistency_defs
  by (intro keeps_intros world_print world_execute world_utcnow;
      auto simp: missing_rpc_def payout_update_def log_insert_def)

text \<open>
  C2. In a live run in which the missing-earnings report returns \<open>N\<close> records of
  the expected shape, the repair calls of the run are exactly the \<open>N\<close> calls of
  \<open>process_submission_earnings\<close> for these records, one each and in their order, and
  \<open>fix_missing_earnings\<close> returns counts with \<open>fixed + failed = N\<close>.
\<close>

theorem live_run_repairs_each_missing_record:
  assumes "\<not> dry_run cfg"
    and "Call missing_rpc (Returned rep) \<in> set (run_trace (consistency_run cfg e))"
    and "data rep = PList subs"
    and "\<forall>sub \<in> set subs. has_keys sub missing_keys"
  shows "repairs_of (run_trace (consistency_run cfg e)) = map repair_of subs
       \<and> (\<forall>s :: main_locals \<times> world. \<exists>c s'.
             fix_missing_earnings e (PList subs) s = (Val c, s') \<and> fixed c + failed c = length subs)"
proof
  let ?W = "\<lambda>p. \<exists>resp. fst p = [resp]
               \<and> (\<forall>rep subs. resp = Returned rep \<and> data rep = PList subs
                     \<and> (\<forall>sub \<in> set subs. has_keys sub missing_keys)
                     \<longrightarrow> snd p = map repair_of subs)"
  let ?I = "on_world (\<lambda>w. ?W (responses_to missing_rpc (trace w), repairs_of (trace w)))
            :: main_locals \<times> world \<Rightarrow> bool"
  let ?N = "on_world (\<lambda>w. calls_of (trace w) = []) :: main_locals \<times> world \<Rightarrow> bool"
  let ?Q = "\<lambda>(r :: int outcome) s'. ?I s' \<or> ?N s'"
  have tail: "wp (seq (check_2 cfg e) (seq (check_3 e) (summary cfg e))) ?Q s" if "?I s" for s
    by (rule wp_mono [OF keeps_wp [OF keeps_on_values [where P = ?W, OF tail_frame] that]]) simp
  have c1: "wp (check_1 cfg e) (\<lambda>r s'. r = Val () \<and> ?I s') s" if "?N s" for s
    using check_1_live [OF assms(1), of "snd s" e "fst s"] no_calls(2,3) that
    by (simp add: on_world_def)
  have hd: "wp (consistency_header cfg e) (\<lambda>r s'. r = Val () \<and> ?N s')
              (\<lparr>total_issues = 0, total_fixed = 0, details = []\<rparr>, world0)"
    by (rule wp_mono [OF wp_keeps_returns [OF header_no_calls checks_return(1)]])
       (simp_all add: world0_def)
  have "wp (consistency_main cfg e) ?Q (\<lparr>total_issues = 0, total_fixed = 0, details = []\<rparr>, world0)"
  proof (cases "supabase_key cfg = []")
    case True
    show ?thesis
      unfolding consistency_main_def
      by (rule wp_seq_val [OF hd]) (simp add: get_client_def True on_world_def)
  next
    case False
    then have gc: "wp (get_client cfg) (\<lambda>r s'. r = Val () \<and> ?N s') s" if "?N s" for s
      using that by (simp add: get_client_def)
    show ?thesis
      unfolding consistency_main_def
      apply (rule wp_seq_val [OF hd])
      apply (rule wp_seq_val [where I = ?N])
       apply (erule gc)
      apply (rule wp_seq_val [where I = ?I])
       apply (erule c1)
      apply (erule tail)
      done
  qed
  then have "?Q (fst (consistency_run cfg e)) (snd (consistency_run cfg e))"
    by (simp add: wp_def consistency_run_def)
  moreover have "\<not> ?N (snd (consistency_run cfg e))"
    using assms(2) no_calls(1) by (auto simp: on_world_def run_trace_def)
  ultimately have "?I (snd (consistency_run cfg e))"
    by blast
  then obtain resp where resp: "responses_to missing_rpc (run_trace (consistency_run cfg e)) = [resp]"
    and rep: "\<And>rep subs. resp = Returned rep \<Longrightarrow> data rep = PList subs
                \<Longrightarrow> \<forall>sub \<in> set subs. has_keys sub missing_keys
                \<Longrightarrow> repairs_of (run_trace (consistency_run cfg e)) = map repair_of subs"
    by (auto simp: on_world_def run_trace_def)
  have "resp = Returned rep"
    using assms(2) resp by (simp add: responses_to_mem)
  then show "repairs_of (run_trace (consistency_run cfg e)) = map repair_of subs"
    using rep assms(3,4) by blast
next
  show "\<forall>s :: main_locals \<times> world. \<exists>c s'.
             fix_missing_earnings e (PList subs) s = (Val c, s') \<and> fixed c + failed c = length subs"
  proof
    fix s :: "main_locals \<times> world"
    show "\<exists>c s'. fix_missing_earnings e (PList subs) s = (Val c, s') \<and> fixed c + failed c = length subs"
      using wp_result [OF fix_missing_earnings_shaped [OF assms(4), where e = e and l = "fst s" and w = "snd s"]]
      by auto
  qed
qed

end
